theory Spec2Isabelle
  imports Complex_Main "HOL-Library.Log_Nat"
begin

section \<open>Python values and the data model (models.py)\<close>

text \<open>
  The verifier passes JSON/YAML-shaped data around: \<open>Dict[str, Any]\<close> contexts, step
  arguments, parser outputs and failure records. \<open>pyval\<close> is the part of Python's value
  space those dictionaries hold. A dictionary is an association list read with
  \<open>map_of\<close> (first binding wins; Python dictionaries have one binding per key).
  A Python \<open>float\<close> is an IEEE-754 binary64 value: a finite one, carried by the
  rational number it denotes, an infinity, or NaN. The negative zero is identified with
  zero: Python holds the two equal, both are false as conditions, and only their printed
  form tells them apart. A Python \<open>str\<close> is a \<open>string\<close> whose characters are the code
  points below 256.
\<close>

datatype pyfloat =
    Finite rat
  | PlusInf
  | MinusInf
  | NaN

datatype pyval =
    PNone
  | PBool bool
  | PInt int
  | PFloat pyfloat
  | PStr string
  | PList "pyval list"
  | PDict "(string \<times> pyval) list"

type_synonym pydict = "(string \<times> pyval) list"

text \<open>\<open>d.get(k)\<close>: the value, or \<open>None\<close> when the key is absent.\<close>

definition py_get :: "pydict \<Rightarrow> string \<Rightarrow> pyval" where
  "py_get d k = (case map_of d k of None \<Rightarrow> PNone | Some v \<Rightarrow> v)"

text \<open>\<open>d.get(k, dflt)\<close>.\<close>

definition py_get_default :: "pydict \<Rightarrow> string \<Rightarrow> pyval \<Rightarrow> pyval" where
  "py_get_default d k dflt = (case map_of d k of None \<Rightarrow> dflt | Some v \<Rightarrow> v)"

text \<open>The truth value of a Python value, as \<open>bool(v)\<close>, \<open>if v\<close>, \<open>not v\<close> and
  \<open>v or w\<close> read it.\<close>

fun truthy :: "pyval \<Rightarrow> bool" where
  "truthy PNone = False"
| "truthy (PBool b) = b"
| "truthy (PInt i) = (i \<noteq> 0)"
| "truthy (PFloat f) = (f \<noteq> Finite 0)"
| "truthy (PStr s) = (s \<noteq> [])"
| "truthy (PList xs) = (xs \<noteq> [])"
| "truthy (PDict kvs) = (kvs \<noteq> [])"

text \<open>\<open>a or b\<close>.\<close>

definition py_or :: "pyval \<Rightarrow> pyval \<Rightarrow> pyval" where
  "py_or a b = (if truthy a then a else b)"

text \<open>\<open>s.startswith(p)\<close>.\<close>

definition startswith :: "string \<Rightarrow> string \<Rightarrow> bool" where
  "startswith s p = (take (length p) s = p)"

record ToDoStep =
  ts_id :: string
  ts_action :: string
  ts_args :: pydict
  ts_timeout_s :: int
  ts_parser :: "string option"
  ts_validator :: "string option"

record ToDoDSL =
  dsl_job_id :: string
  dsl_profile :: string
  dsl_target_host :: string
  dsl_context :: pydict
  dsl_prechecks :: "pydict list"
  dsl_steps :: "ToDoStep list"
  dsl_postchecks :: "pydict list"
  dsl_success_criteria :: "string list"

record ExecStep =
  es_id :: string
  es_cmd :: string
  es_timeout_s :: int
  es_parser :: "string option"
  es_validator :: "string option"

record RawResult =
  rr_step_id :: string
  rr_exit_code :: int
  rr_stdout :: string
  rr_stderr :: string
  rr_duration_ms :: int
  rr_truncated :: bool

section \<open>The critic (exec\_pool.py, critic\_propose\_patch)\<close>

text \<open>
  \<open>next((s.args.get("iface") for s in dsl.steps if s.action.startswith("read_nic")), "eth0")\<close>:
  the \<open>iface\<close> argument of the first step whose action starts with \<open>read_nic\<close>
  (\<open>None\<close> when that step has no such argument), and \<open>"eth0"\<close> when there is no such step.
\<close>

definition critic_iface :: "ToDoStep list \<Rightarrow> pyval" where
  "critic_iface ss =
     (case filter (\<lambda>s. startswith (ts_action s) ''read_nic'') ss of
        [] \<Rightarrow> PStr ''eth0''
      | s # _ \<Rightarrow> py_get (ts_args s) ''iface'')"

definition critic_patch :: "pyval \<Rightarrow> ToDoStep" where
  "critic_patch iface =
     \<lparr> ts_id = ''s_fallback_sysfs'', ts_action = ''read_sysfs_nic'',
       ts_args = [(''iface'', iface)], ts_timeout_s = 5,
       ts_parser = Some ''parse_sysfs_nic'', ts_validator = None \<rparr>"

text \<open>
  The source appends to \<open>dsl.steps\<close> in place and returns the same object; the model
  returns the updated DSL. On every path that returns \<open>None\<close> the source leaves the
  DSL untouched.
\<close>

definition critic_propose_patch :: "ToDoDSL \<Rightarrow> pydict \<Rightarrow> ToDoDSL option" where
  "critic_propose_patch dsl failure =
     (let comp = py_get (dsl_context dsl) ''component'' in
      if comp = PStr ''nic'' \<and> py_get failure ''parser'' = PStr ''parse_ethtool'' then
        (let patch = critic_patch (critic_iface (dsl_steps dsl)) in
         if \<not> list_ex (\<lambda>s. ts_id s = ts_id patch) (dsl_steps dsl)
         then Some (dsl\<lparr>dsl_steps := dsl_steps dsl @ [patch]\<rparr>)
         else None)
      else None)"

section \<open>Errors\<close>

text \<open>
  Every \<open>raise\<close> of the source, and every exception a Python operation raises on the
  paths modelled, is a value: a function that can raise returns \<open>error + 'a\<close>, with
  \<open>Inl\<close> the exception. \<open>ValueError\<close> and \<open>KeyError\<close> carry their message.
\<close>

datatype error =
    ValueError string
  | KeyError string
  | IndexError
  | TypeError
  | AttributeError
  | OverflowError

text \<open>
  A method call \<open>v.get(...)\<close> needs \<open>v\<close> to be a dictionary: on any other value of
  \<open>pyval\<close> the attribute lookup raises \<open>AttributeError\<close>.
\<close>

fun py_dict :: "pyval \<Rightarrow> error + pydict" where
  "py_dict (PDict kvs) = Inr kvs"
| "py_dict v = Inl AttributeError"

section \<open>Remote execution (exec\_pool.py)\<close>

text \<open>
  What one \<open>async with asyncssh.connect(...)\<close> / \<open>wait_for(conn.run(cmd), timeout)\<close>
  does is the environment's choice: the command completes with an exit status and its two
  output streams (either of which the library may report as \<open>None\<close>), the wait times out
  (\<open>asyncio.TimeoutError\<close>), or anything else raises (\<open>Exception\<close>, kept as its text
  \<open>str(e)\<close>). A command can also complete without an exit status
  (\<open>res.exit_status\<close> is \<open>None\<close>, as for a process ended by a signal): then
  \<open>RawResult(exit_code=None, ...)\<close> fails the model's validation, still inside the
  \<open>try\<close>, and the \<open>except Exception\<close> branch returns; \<open>CompletedNoStatus\<close> carries the
  two output streams and the text \<open>str(e)\<close> of that validation error.
  The environment also fixes the wall-clock duration the call measures.
  It is a parameter \<open>remote\<close>: the outcome and the measured milliseconds of the
  \<open>n\<close>-th call, given the host, the command and the timeout passed to it.
\<close>

datatype remote_outcome =
    Completed int "string option" "string option"
  | CompletedNoStatus "string option" "string option" string
  | TimedOut
  | Failed string

type_synonym remote = "nat \<Rightarrow> string \<Rightarrow> string \<Rightarrow> int \<Rightarrow> remote_outcome \<times> int"

definition OUTPUT_CAP :: nat where
  "OUTPUT_CAP = 262144"

definition ERR_CAP :: nat where
  "ERR_CAP = 131072"

text \<open>\<open>x or ""\<close> for an optional string.\<close>

definition or_empty :: "string option \<Rightarrow> string" where
  "or_empty x = (case x of None \<Rightarrow> [] | Some s \<Rightarrow> s)"

definition run_cmd :: "remote \<Rightarrow> nat \<Rightarrow> string \<Rightarrow> string \<Rightarrow> int \<Rightarrow> RawResult" where
  "run_cmd rem n host cmd timeout =
     (case rem n host cmd timeout of
        (Completed exit_status out err, ms) \<Rightarrow>
          \<lparr> rr_step_id = [], rr_exit_code = exit_status,
            rr_stdout = take OUTPUT_CAP (or_empty out),
            rr_stderr = take ERR_CAP (or_empty err),
            rr_duration_ms = ms,
            rr_truncated = (length (or_empty out) > OUTPUT_CAP \<or> length (or_empty err) > ERR_CAP) \<rparr>
      | (CompletedNoStatus out err msg, ms) \<Rightarrow>
          \<lparr> rr_step_id = [], rr_exit_code = 255, rr_stdout = [], rr_stderr = msg,
            rr_duration_ms = ms, rr_truncated = False \<rparr>
      | (TimedOut, ms) \<Rightarrow>
          \<lparr> rr_step_id = [], rr_exit_code = 124, rr_stdout = [], rr_stderr = ''TIMEOUT'',
            rr_duration_ms = ms, rr_truncated = False \<rparr>
      | (Failed msg, ms) \<Rightarrow>
          \<lparr> rr_step_id = [], rr_exit_code = 255, rr_stdout = [], rr_stderr = msg,
            rr_duration_ms = ms, rr_truncated = False \<rparr>)"

text \<open>
  The caps carry the comments \<open># 256 KiB\<close> and \<open># 128 KiB\<close>: they are meant as sizes in
  bytes. \<open>utf8_length\<close> is the size in bytes of a string, in the UTF-8 encoding the SSH
  library decodes the streams from: one byte for a code point below 128, two for the
  others below 256.
\<close>

definition utf8_length :: "string \<Rightarrow> nat" where
  "utf8_length s = sum_list (map (\<lambda>c. if (of_char c :: nat) < 128 then 1 else 2) s)"

text \<open>The events a job puts on its queue, and the plan preview a stream starts with.\<close>

datatype event =
    PlanPreview "ExecStep list"
  | StepStart string string
  | StepResult string int int
  | Verdict string string

text \<open>
  \<open>execute_plan\<close>: the loop over \<open>plan.steps\<close>, from the \<open>n\<close>-th remote call on. It
  returns the results in order and the events handed to \<open>on_event\<close> in order.
\<close>

fun execute_plan_from :: "remote \<Rightarrow> string \<Rightarrow> nat \<Rightarrow> ExecStep list \<Rightarrow> RawResult list \<times> event list" where
  "execute_plan_from rem host n [] = ([], [])"
| "execute_plan_from rem host n (s # ss) =
     (let rr = (run_cmd rem n host (es_cmd s) (es_timeout_s s))\<lparr>rr_step_id := es_id s\<rparr>;
          rest = execute_plan_from rem host (Suc n) ss
      in (rr # fst rest,
          StepStart (es_id s) (es_cmd s)
            # StepResult (es_id s) (rr_exit_code rr) (rr_duration_ms rr) # snd rest))"

definition execute_plan :: "remote \<Rightarrow> string \<Rightarrow> ExecStep list \<Rightarrow> RawResult list \<times> event list" where
  "execute_plan rem host plan = execute_plan_from rem host 0 plan"

section \<open>Strings\<close>

text \<open>
  The string operations of Python the code uses, on code points below 256.
  \<open>is_space\<close> is \<open>str.isspace\<close> on one character: the characters \<open>str.split()\<close> and
  \<open>str.strip()\<close> treat as whitespace. \<open>lower\<close> is \<open>str.lower\<close>: the ASCII capitals and
  the Latin-1 capitals (all of 192..222 but the multiplication sign 215) move up by 32.
\<close>

definition is_space :: "char \<Rightarrow> bool" where
  "is_space c = (let n = (of_char c :: nat) in
     (9 \<le> n \<and> n \<le> 13) \<or> (28 \<le> n \<and> n \<le> 32) \<or> n = 133 \<or> n = 160)"

definition lower_char :: "char \<Rightarrow> char" where
  "lower_char c = (let n = (of_char c :: nat) in
     if (65 \<le> n \<and> n \<le> 90) \<or> (192 \<le> n \<and> n \<le> 222 \<and> n \<noteq> 215)
     then char_of (n + 32) else c)"

definition lower :: "string \<Rightarrow> string" where
  "lower s = map lower_char s"

text \<open>\<open>s.strip()\<close>.\<close>

definition strip :: "string \<Rightarrow> string" where
  "strip s = rev (dropWhile is_space (rev (dropWhile is_space s)))"

text \<open>\<open>p in s\<close> for two strings: \<open>p\<close> occurs in \<open>s\<close> as a contiguous substring.\<close>

fun contains :: "string \<Rightarrow> string \<Rightarrow> bool" where
  "contains [] p = (p = [])"
| "contains (c # cs) p = (startswith (c # cs) p \<or> contains cs p)"

section \<open>The static audit (preflight.py, static\_audit)\<close>

definition DENY_PATTERNS :: "string list" where
  "DENY_PATTERNS =
     ['' rm '', '' mkfs'', '' dd '', '' :(){:|:&};:'', ''shutdown'', ''reboot'',
      ''iptables'', ''sysctl -w '', ''chown '', ''chmod '']"

text \<open>
  \<open>low = f" {exec_cmd} ".lower()\<close>, then the loop over \<open>DENY_PATTERNS\<close> raises at the
  first pattern that occurs in \<open>low\<close>.
\<close>

definition static_audit :: "string \<Rightarrow> error + unit" where
  "static_audit exec_cmd =
     (let low = lower ('' '' @ exec_cmd @ '' '') in
      case find (\<lambda>p. contains low p) DENY_PATTERNS of
        None \<Rightarrow> Inr ()
      | Some p \<Rightarrow> Inl (ValueError (''Denied pattern in cmd: '' @ strip p)))"

section \<open>The catalog and the policy gate (preflight.py, policy\_gate)\<close>

text \<open>
  \<open>s.split()\<close>, with no separator: the maximal runs of non-whitespace characters, in
  order. \<open>split_from cur rest\<close> scans \<open>rest\<close> with the current token (reversed)
  in \<open>cur\<close>.
\<close>

fun split_from :: "string \<Rightarrow> string \<Rightarrow> string list" where
  "split_from cur [] = (if cur = [] then [] else [rev cur])"
| "split_from cur (c # cs) =
     (if is_space c
      then (if cur = [] then split_from [] cs else rev cur # split_from [] cs)
      else split_from (c # cur) cs)"

definition split_ws :: "string \<Rightarrow> string list" where
  "split_ws s = split_from [] s"

text \<open>
  The catalog is loaded from \<open>catalog.yaml\<close>, which is not part of the sources; it is a
  parameter of everything below. \<open>catalog.actions\<close> and \<open>catalog.profiles\<close> are the
  mappings under the document's keys \<open>actions\<close> and \<open>profiles\<close>; what they hold for an
  action or a profile is whatever the YAML document holds, a \<open>pyval\<close>, and the gate
  reads it with the dictionary operations written in the code.
\<close>

record Catalog =
  cat_actions :: pydict
  cat_profiles :: pydict

text \<open>
  \<open>a["cmd"].split()[2] if a["cmd"].startswith("sudo") else ""\<close>: the third
  whitespace-separated token of the command template; indexing past the end raises
  \<open>IndexError\<close>.
\<close>

definition sudo_bin_path :: "string \<Rightarrow> error + string" where
  "sudo_bin_path cmd =
     (if startswith cmd ''sudo''
      then (if 2 < length (split_ws cmd) then Inr (split_ws cmd ! 2) else Inl IndexError)
      else Inr [])"

text \<open>
  \<open>bin_path in allowed\<close> for a string \<open>bin_path\<close>: membership in a list, the
  substring test in a string, key membership in a dictionary; \<open>TypeError\<close> on a value
  that is not a container.
\<close>

fun py_str_in :: "string \<Rightarrow> pyval \<Rightarrow> error + bool" where
  "py_str_in b (PList xs) = Inr (PStr b \<in> set xs)"
| "py_str_in b (PStr t) = Inr (contains t b)"
| "py_str_in b (PDict kvs) = Inr (b \<in> set (map fst kvs))"
| "py_str_in b v = Inl TypeError"

text \<open>
  The sudo check of one step, for the action's entry \<open>a\<close> (a dictionary by now): the
  body of \<open>if a.get("requires_sudo"):\<close>. It reads
  \<open>catalog.profiles[dsl.profile].get("allow_sudo", [])\<close>, then \<open>a["cmd"]\<close>, whose
  \<open>startswith\<close> and \<open>split\<close> exist only on a string.
\<close>

definition sudo_check :: "Catalog \<Rightarrow> string \<Rightarrow> string \<Rightarrow> pydict \<Rightarrow> error + unit" where
  "sudo_check cat prof action a =
     (case map_of (cat_profiles cat) prof of
        None \<Rightarrow> Inl (KeyError prof)
      | Some pv \<Rightarrow>
          (case py_dict pv of
             Inl e \<Rightarrow> Inl e
           | Inr pd \<Rightarrow>
               (let allowed = py_get_default pd ''allow_sudo'' (PList []) in
                case map_of a ''cmd'' of
                  None \<Rightarrow> Inl (KeyError ''cmd'')
                | Some (PStr cmd) \<Rightarrow>
                    (case sudo_bin_path cmd of
                       Inl e \<Rightarrow> Inl e
                     | Inr bin_path \<Rightarrow>
                         (case py_str_in bin_path allowed of
                            Inl e \<Rightarrow> Inl e
                          | Inr found \<Rightarrow>
                              if \<not> found
                              then Inl (ValueError (''sudo binary not allowed for action ''
                                          @ action @ '': '' @ bin_path))
                              else Inr ()))
                | Some v \<Rightarrow> Inl AttributeError)))"

text \<open>
  The checks of one step: \<open>a = catalog.actions.get(s.action)\<close>; \<open>if not a\<close> (an
  absent action, and also an entry that is \<open>None\<close> or empty) raises
  \<open>Unknown action\<close>; \<open>if not a.get("read_only", False)\<close> raises \<open>is not read-only\<close>;
  then the sudo check when \<open>a.get("requires_sudo")\<close> is true.
\<close>

definition policy_step :: "Catalog \<Rightarrow> string \<Rightarrow> ToDoStep \<Rightarrow> error + unit" where
  "policy_step cat prof s =
     (let a = py_get (cat_actions cat) (ts_action s) in
      if \<not> truthy a then Inl (ValueError (''Unknown action '' @ ts_action s))
      else case py_dict a of
             Inl e \<Rightarrow> Inl e
           | Inr ad \<Rightarrow>
               if \<not> truthy (py_get_default ad ''read_only'' (PBool False))
               then Inl (ValueError (''Action '' @ ts_action s @ '' is not read-only''))
               else if truthy (py_get ad ''requires_sudo'')
               then sudo_check cat prof (ts_action s) ad
               else Inr ())"

text \<open>
  The loop of \<open>policy_gate\<close> over \<open>dsl.steps\<close>: it raises at the first step that
  fails a check and looks at no later step.
\<close>

fun policy_steps :: "Catalog \<Rightarrow> string \<Rightarrow> ToDoStep list \<Rightarrow> error + unit" where
  "policy_steps cat prof [] = Inr ()"
| "policy_steps cat prof (s # ss) =
     (case policy_step cat prof s of
        Inl e \<Rightarrow> Inl e
      | Inr u \<Rightarrow> policy_steps cat prof ss)"

definition policy_gate :: "ToDoDSL \<Rightarrow> Catalog \<Rightarrow> error + unit" where
  "policy_gate dsl cat =
     (if map_of (cat_profiles cat) (dsl_profile dsl) = None
      then Inl (ValueError (''Unknown profile '' @ dsl_profile dsl))
      else policy_steps cat (dsl_profile dsl) (dsl_steps dsl))"

subsection \<open>The policy as the specification words it\<close>

text \<open>
  The specification names the binary as ``the token following \<open>sudo\<close> in the
  action's command template''. \<open>spec_sudo_token\<close> is that token, and
  \<open>spec_complies\<close> is the condition under which the specification promises that the
  gate raises no error: the profile exists, every step's action exists and is read-only,
  and for every action that requires sudo that token is in the profile's
  \<open>allow_sudo\<close> list. These two follow the specification's words, not the code, and
  serve only to compare the two.
\<close>

definition spec_sudo_token :: "string \<Rightarrow> string option" where
  "spec_sudo_token cmd =
     (case dropWhile (\<lambda>t. t \<noteq> ''sudo'') (split_ws cmd) of
        _ # t # _ \<Rightarrow> Some t
      | _ \<Rightarrow> None)"

definition spec_action_ok :: "pyval \<Rightarrow> pyval \<Rightarrow> bool" where
  "spec_action_ok allowed a =
     (case a of
        PDict ad \<Rightarrow>
          py_get ad ''read_only'' = PBool True \<and>
          (if py_get ad ''requires_sudo'' = PBool True
           then (case py_get ad ''cmd'' of
                   PStr cmd \<Rightarrow>
                     (case spec_sudo_token cmd of
                        None \<Rightarrow> False
                      | Some t \<Rightarrow> (case allowed of PList xs \<Rightarrow> PStr t \<in> set xs | _ \<Rightarrow> False))
                 | _ \<Rightarrow> False)
           else True)
      | _ \<Rightarrow> False)"

definition spec_complies :: "ToDoDSL \<Rightarrow> Catalog \<Rightarrow> bool" where
  "spec_complies dsl cat =
     (case map_of (cat_profiles cat) (dsl_profile dsl) of
        Some (PDict pd) \<Rightarrow>
          list_all (\<lambda>s. case map_of (cat_actions cat) (ts_action s) of
                            None \<Rightarrow> False
                          | Some a \<Rightarrow> spec_action_ok (py_get pd ''allow_sudo'') a)
            (dsl_steps dsl)
      | _ \<Rightarrow> False)"

section \<open>Floating-point arithmetic\<close>

text \<open>
  Python's \<open>float\<close> operations are the IEEE-754 binary64 operations with rounding to
  nearest, ties to even: the exact result is computed and rounded to the nearest double.
  \<open>rhe\<close> rounds a rational to the nearest integer, ties to the even one. \<open>expo x\<close> is
  the binary exponent of a non-zero \<open>x\<close>, the \<open>e\<close> with \<open>2^e \<le> |x| < 2^(e+1)\<close>.
  \<open>fl x\<close> is the double nearest to \<open>x\<close> when the exponent range is unbounded above: a
  double has 53 significant bits, so its last bit weighs \<open>2^(e-52)\<close>, and never less
  than \<open>2^-1074\<close> (the subnormal range). \<open>round_float\<close> adds the overflow rule: a
  rounded value of magnitude \<open>2^1024\<close> or more, that is, beyond the largest double
  \<open>(2^53 - 1) * 2^971\<close>, becomes an infinity.
\<close>

definition rhe :: "rat \<Rightarrow> int" where
  "rhe y = (let f = \<lfloor>y\<rfloor>; d = y - of_int f in
     if d < 1/2 then f else if 1/2 < d then f + 1 else if even f then f else f + 1)"

definition expo :: "rat \<Rightarrow> int" where
  "expo x = (let q = \<bar>x\<bar> in
     if 1 \<le> q then bitlen \<lfloor>q\<rfloor> - 1 else - bitlen (\<lceil>1 / q\<rceil> - 1))"

definition fl :: "rat \<Rightarrow> rat" where
  "fl x = (if x = 0 then 0
     else let e = max (expo x - 52) (- 1074) in of_int (rhe (x / 2 powi e)) * 2 powi e)"

definition round_float :: "rat \<Rightarrow> pyfloat" where
  "round_float x =
     (let y = fl x in
      if y = 0 \<or> expo y < 1024 then Finite y
      else if 0 < y then PlusInf else MinusInf)"

text \<open>The float operations the validators use: \<open>a - b\<close>, \<open>a * b\<close>, \<open>a / 100.0\<close>,
  \<open>abs(a)\<close> and \<open>a <= b\<close>.\<close>

fun f_neg :: "pyfloat \<Rightarrow> pyfloat" where
  "f_neg (Finite x) = Finite (- x)"
| "f_neg PlusInf = MinusInf"
| "f_neg MinusInf = PlusInf"
| "f_neg NaN = NaN"

fun f_sub :: "pyfloat \<Rightarrow> pyfloat \<Rightarrow> pyfloat" where
  "f_sub (Finite x) (Finite y) = round_float (x - y)"
| "f_sub NaN b = NaN"
| "f_sub a NaN = NaN"
| "f_sub PlusInf PlusInf = NaN"
| "f_sub MinusInf MinusInf = NaN"
| "f_sub PlusInf b = PlusInf"
| "f_sub MinusInf b = MinusInf"
| "f_sub (Finite x) b = f_neg b"

fun f_mul :: "pyfloat \<Rightarrow> pyfloat \<Rightarrow> pyfloat" where
  "f_mul (Finite x) (Finite y) = round_float (x * y)"
| "f_mul NaN b = NaN"
| "f_mul a NaN = NaN"
| "f_mul (Finite x) b = (if x = 0 then NaN else if 0 < x then b else f_neg b)"
| "f_mul a (Finite y) = (if y = 0 then NaN else if 0 < y then a else f_neg a)"
| "f_mul a b = (if a = b then PlusInf else MinusInf)"

fun f_div100 :: "pyfloat \<Rightarrow> pyfloat" where
  "f_div100 (Finite x) = round_float (x / 100)"
| "f_div100 a = a"

fun f_abs :: "pyfloat \<Rightarrow> pyfloat" where
  "f_abs (Finite x) = Finite \<bar>x\<bar>"
| "f_abs MinusInf = PlusInf"
| "f_abs a = a"

fun f_le :: "pyfloat \<Rightarrow> pyfloat \<Rightarrow> bool" where
  "f_le (Finite x) (Finite y) = (x \<le> y)"
| "f_le NaN b = False"
| "f_le a NaN = False"
| "f_le MinusInf b = True"
| "f_le a PlusInf = True"
| "f_le a b = False"

text \<open>
  \<open>round(x, 2)\<close> on a float: the exact value of \<open>x\<close> rounded to two decimals, ties to
  even, and that decimal converted to the nearest double; an infinity or NaN is returned
  as it is.
\<close>

fun f_round2 :: "pyfloat \<Rightarrow> pyfloat" where
  "f_round2 (Finite x) = round_float (of_int (rhe (x * 100)) / 100)"
| "f_round2 a = a"

section \<open>Python's numbers\<close>

text \<open>
  The numeric values are \<open>bool\<close> (a subclass of \<open>int\<close>), \<open>int\<close> (unbounded) and
  \<open>float\<close>. An operation on two integers is exact; on an integer and a float the
  integer is first converted to the nearest double, which raises \<open>OverflowError\<close> when
  that is beyond the largest double; on anything else the operations below raise
  \<open>TypeError\<close>. A comparison of an integer with a float compares the exact values.
\<close>

datatype num = NInt int | NFloat pyfloat

fun as_num :: "pyval \<Rightarrow> num option" where
  "as_num (PBool b) = Some (NInt (if b then 1 else 0))"
| "as_num (PInt i) = Some (NInt i)"
| "as_num (PFloat f) = Some (NFloat f)"
| "as_num v = None"

fun of_num :: "num \<Rightarrow> pyval" where
  "of_num (NInt i) = PInt i"
| "of_num (NFloat f) = PFloat f"

definition int_to_float :: "int \<Rightarrow> error + pyfloat" where
  "int_to_float i =
     (case round_float (of_int i) of
        Finite y \<Rightarrow> Inr (Finite y)
      | _ \<Rightarrow> Inl OverflowError)"

fun to_float :: "num \<Rightarrow> error + pyfloat" where
  "to_float (NInt i) = int_to_float i"
| "to_float (NFloat f) = Inr f"

definition float_op :: "(pyfloat \<Rightarrow> pyfloat \<Rightarrow> pyfloat) \<Rightarrow> num \<Rightarrow> num \<Rightarrow> error + pyval" where
  "float_op f a b =
     (case to_float a of
        Inl e \<Rightarrow> Inl e
      | Inr x \<Rightarrow> (case to_float b of Inl e \<Rightarrow> Inl e | Inr y \<Rightarrow> Inr (PFloat (f x y))))"

definition py_sub :: "pyval \<Rightarrow> pyval \<Rightarrow> error + pyval" where
  "py_sub a b =
     (case (as_num a, as_num b) of
        (Some (NInt i), Some (NInt j)) \<Rightarrow> Inr (PInt (i - j))
      | (Some x, Some y) \<Rightarrow> float_op f_sub x y
      | _ \<Rightarrow> Inl TypeError)"

definition py_mul :: "pyval \<Rightarrow> pyval \<Rightarrow> error + pyval" where
  "py_mul a b =
     (case (as_num a, as_num b) of
        (Some (NInt i), Some (NInt j)) \<Rightarrow> Inr (PInt (i * j))
      | (Some x, Some y) \<Rightarrow> float_op f_mul x y
      | _ \<Rightarrow> Inl TypeError)"

text \<open>\<open>a / 100.0\<close>.\<close>

definition py_div100 :: "pyval \<Rightarrow> error + pyval" where
  "py_div100 a =
     (case as_num a of
        Some x \<Rightarrow> (case to_float x of Inl e \<Rightarrow> Inl e | Inr f \<Rightarrow> Inr (PFloat (f_div100 f)))
      | None \<Rightarrow> Inl TypeError)"

definition py_abs :: "pyval \<Rightarrow> error + pyval" where
  "py_abs a =
     (case as_num a of
        Some (NInt i) \<Rightarrow> Inr (PInt \<bar>i\<bar>)
      | Some (NFloat f) \<Rightarrow> Inr (PFloat (f_abs f))
      | None \<Rightarrow> Inl TypeError)"

fun num_le :: "num \<Rightarrow> num \<Rightarrow> bool" where
  "num_le (NInt i) (NInt j) = (i \<le> j)"
| "num_le (NInt i) (NFloat f) = f_le (Finite (of_int i)) f"
| "num_le (NFloat f) (NInt j) = f_le f (Finite (of_int j))"
| "num_le (NFloat f) (NFloat g) = f_le f g"

definition py_le :: "pyval \<Rightarrow> pyval \<Rightarrow> error + bool" where
  "py_le a b =
     (case (as_num a, as_num b) of
        (Some x, Some y) \<Rightarrow> Inr (num_le x y)
      | _ \<Rightarrow> Inl TypeError)"

text \<open>\<open>round(v, 2)\<close>: an integer (or \<open>bool\<close>) gives that integer, a float is rounded to
  two decimals, anything else has no \<open>__round__\<close>.\<close>

definition py_round2 :: "pyval \<Rightarrow> error + pyval" where
  "py_round2 v =
     (case as_num v of
        Some (NInt i) \<Rightarrow> Inr (PInt i)
      | Some (NFloat f) \<Rightarrow> Inr (PFloat (f_round2 f))
      | None \<Rightarrow> Inl TypeError)"

section \<open>Sequencing of computations that can raise\<close>

text \<open>\<open>ebind m f\<close> runs \<open>f\<close> on the value of \<open>m\<close>, unless \<open>m\<close> raised.\<close>

definition ebind :: "error + 'a \<Rightarrow> ('a \<Rightarrow> error + 'b) \<Rightarrow> error + 'b" where
  "ebind m f = (case m of Inl e \<Rightarrow> Inl e | Inr v \<Rightarrow> f v)"

section \<open>Parsers (parsers.py, parse\_meminfo)\<close>

text \<open>
  The characters \<open>\d\<close> matches below code point 256 are the ASCII digits;
  \<open>int_of_digits\<close> is the decimal value of a string of them. \<open>int(s)\<close> on such a
  string is that value, but the interpreter refuses, with \<open>ValueError\<close>, a string of
  more than 4300 digits (its default limit, leading zeros counted).
\<close>

definition is_ascii_digit :: "char \<Rightarrow> bool" where
  "is_ascii_digit c = (let n = (of_char c :: nat) in 48 \<le> n \<and> n \<le> 57)"

definition int_of_digits :: "string \<Rightarrow> int" where
  "int_of_digits ds = foldl (\<lambda>a c. 10 * a + (int (of_char c) - 48)) 0 ds"

definition py_int_digits :: "string \<Rightarrow> error + int" where
  "py_int_digits ds =
     (if 4300 < length ds
      then Inl (ValueError ''Exceeds the limit (4300 digits) for integer string conversion'')
      else Inr (int_of_digits ds))"

text \<open>
  \<open>re.search(r"MemTotal:\s+(\d+)\s+kB", text)\<close>. \<open>match_memtotal s\<close> matches the
  pattern at the start of \<open>s\<close> and returns the group: each of \<open>\s+\<close>, \<open>\d+\<close> must
  take at least one character and takes all it can, since what follows it in the pattern
  cannot start with a character of its own class. \<open>search_memtotal\<close> tries the
  positions of the text from left to right.
\<close>

definition match_memtotal :: "string \<Rightarrow> string option" where
  "match_memtotal s =
     (if startswith s ''MemTotal:''
      then (let r1 = drop 9 s;
                r2 = dropWhile is_space r1;
                ds = takeWhile is_ascii_digit r2;
                r3 = dropWhile is_ascii_digit r2;
                r4 = dropWhile is_space r3
            in if takeWhile is_space r1 \<noteq> [] \<and> ds \<noteq> [] \<and> takeWhile is_space r3 \<noteq> []
                  \<and> startswith r4 ''kB''
               then Some ds else None)
      else None)"

fun search_memtotal :: "string \<Rightarrow> string option" where
  "search_memtotal [] = None"
| "search_memtotal (c # cs) =
     (case match_memtotal (c # cs) of
        Some ds \<Rightarrow> Some ds
      | None \<Rightarrow> search_memtotal cs)"

text \<open>
  \<open>gib = int(m.group(1)) / (1024**2) if m else 0.0\<close>: the true division of two
  integers is the double nearest to the exact quotient, and raises \<open>OverflowError\<close>
  when that is beyond the largest double. Then \<open>{"total_gib": round(gib, 2)}\<close>.
\<close>

definition parse_meminfo :: "string \<Rightarrow> error + pydict" where
  "parse_meminfo text =
     (case search_memtotal text of
        None \<Rightarrow> Inr [(''total_gib'', PFloat (f_round2 (Finite 0)))]
      | Some ds \<Rightarrow>
          ebind (py_int_digits ds) (\<lambda>n.
            case round_float (of_int n / 2 ^ 20) of
              Finite g \<Rightarrow> Inr [(''total_gib'', PFloat (f_round2 (Finite g)))]
            | _ \<Rightarrow> Inl OverflowError))"

section \<open>Validators (validators.py)\<close>

text \<open>
  A validator returns \<open>ok_note(ok, note)\<close>. The note is an f-string; the model keeps
  what it is built from rather than its text: \<open>NoteMem actual expected pct\<close> stands for
  \<open>f"MemTotal {actual} GiB vs expected {expected_gib} \<plusminus>{pct}%"\<close> and
  \<open>NoteMissing missing\<close> for \<open>f"Missing/mismatch: {missing}"\<close>.
\<close>

datatype step_note =
    NoteText string
  | NoteMem pyval pyval pyval
  | NoteMissing "pyval list"

text \<open>
  \<open>actual = parsed.get("total_gib", 0) or 0\<close>, then
  \<open>ok = abs(actual - expected_gib) <= expected_gib * (pct / 100.0)\<close>: the left operand
  is evaluated first, then the right one, then the comparison.
\<close>

definition total_mem_within_pct :: "pydict \<Rightarrow> pyval \<Rightarrow> pyval \<Rightarrow> error + (bool \<times> step_note)" where
  "total_mem_within_pct parsed expected_gib pct =
     (let actual = py_or (py_get_default parsed ''total_gib'' (PInt 0)) (PInt 0) in
      ebind (py_sub actual expected_gib) (\<lambda>d.
      ebind (py_abs d) (\<lambda>lhs.
      ebind (py_div100 pct) (\<lambda>q.
      ebind (py_mul expected_gib q) (\<lambda>rhs.
      ebind (py_le lhs rhs) (\<lambda>ok.
      Inr (ok, NoteMem actual expected_gib pct)))))))"

text \<open>
  \<open>for d in v\<close>: the elements of a list, the characters of a string, the keys of a
  dictionary; \<open>TypeError\<close> on a value that is not iterable.
\<close>

fun py_iter :: "pyval \<Rightarrow> error + pyval list" where
  "py_iter (PList xs) = Inr xs"
| "py_iter (PStr s) = Inr (map (\<lambda>c. PStr [c]) s)"
| "py_iter (PDict kvs) = Inr (map (\<lambda>kv. PStr (fst kv)) kvs)"
| "py_iter v = Inl TypeError"

text \<open>
  The members of a set are compared by hash and \<open>==\<close>. Lists and dictionaries are not
  hashable (\<open>TypeError\<close>). Numbers are equal when their exact values are, whatever
  their types (\<open>1 == 1.0 == True\<close>); NaN equals nothing (the NaNs compared here are
  never the same object, coming from two different documents); values of other types are
  equal when they are the same.
\<close>

fun hashable :: "pyval \<Rightarrow> bool" where
  "hashable (PList xs) = False"
| "hashable (PDict kvs) = False"
| "hashable v = True"

fun num_eq :: "num \<Rightarrow> num \<Rightarrow> bool" where
  "num_eq (NInt i) (NInt j) = (i = j)"
| "num_eq (NInt i) (NFloat f) = (f = Finite (of_int i))"
| "num_eq (NFloat f) (NInt j) = (f = Finite (of_int j))"
| "num_eq (NFloat f) (NFloat g) = (f = g \<and> f \<noteq> NaN)"

definition py_eq :: "pyval \<Rightarrow> pyval \<Rightarrow> bool" where
  "py_eq a b =
     (case (as_num a, as_num b) of
        (Some x, Some y) \<Rightarrow> num_eq x y
      | (None, None) \<Rightarrow> a = b
      | _ \<Rightarrow> False)"

text \<open>
  The tuples \<open>all_expected_dimms\<close> compares: \<open>(slot, rounded size, speed, ecc)\<close>.
  Building a set of them, or testing membership, hashes the tuple, which needs its
  components hashable; two tuples are equal when their components are.
\<close>

type_synonym dimm_key = "pyval \<times> pyval \<times> pyval \<times> bool"

definition key_hashable :: "dimm_key \<Rightarrow> bool" where
  "key_hashable k = (case k of (slot, sz, speed, ecc) \<Rightarrow> hashable slot \<and> hashable sz \<and> hashable speed)"

definition key_eq :: "dimm_key \<Rightarrow> dimm_key \<Rightarrow> bool" where
  "key_eq k k' =
     (case k of (slot, sz, speed, ecc) \<Rightarrow>
      case k' of (slot', sz', speed', ecc') \<Rightarrow>
        py_eq slot slot' \<and> py_eq sz sz' \<and> py_eq speed speed' \<and> ecc = ecc')"

text \<open>
  The tuple of a parsed DIMM \<open>d\<close>:
  \<open>(d["slot"], round(d.get("size_gib") or 0, 2), d.get("speed_mt"), bool(d.get("ecc")))\<close>.
  Subscripting with a string raises \<open>TypeError\<close> on anything but a dictionary and
  \<open>KeyError\<close> on a dictionary without the key.
\<close>

definition parsed_key :: "pyval \<Rightarrow> error + dimm_key" where
  "parsed_key d =
     (case d of
        PDict dd \<Rightarrow>
          (case map_of dd ''slot'' of
             None \<Rightarrow> Inl (KeyError ''slot'')
           | Some slot \<Rightarrow>
               ebind (py_round2 (py_or (py_get dd ''size_gib'') (PInt 0))) (\<lambda>sz.
                 let k = (slot, sz, py_get dd ''speed_mt'', truthy (py_get dd ''ecc''))
                 in if key_hashable k then Inr k else Inl TypeError))
      | _ \<Rightarrow> Inl TypeError)"

text \<open>
  The tuple of an expected DIMM \<open>e\<close>:
  \<open>(e["slot"], round(e["size_gib"], 2), e.get("speed_mt"), bool(e.get("ecc", True)))\<close>,
  hashed by the membership test \<open>tup not in have\<close>.
\<close>

definition expected_key :: "pyval \<Rightarrow> error + dimm_key" where
  "expected_key e =
     (case e of
        PDict ed \<Rightarrow>
          (case map_of ed ''slot'' of
             None \<Rightarrow> Inl (KeyError ''slot'')
           | Some slot \<Rightarrow>
               (case map_of ed ''size_gib'' of
                  None \<Rightarrow> Inl (KeyError ''size_gib'')
                | Some v \<Rightarrow>
                    ebind (py_round2 v) (\<lambda>sz.
                      let k = (slot, sz, py_get ed ''speed_mt'',
                               truthy (py_get_default ed ''ecc'' (PBool True)))
                      in if key_hashable k then Inr k else Inl TypeError)))
      | _ \<Rightarrow> Inl TypeError)"

text \<open>The set comprehension \<open>have\<close>, over the truthy elements \<open>d\<close> (\<open>if d\<close>), in
  order.\<close>

fun collect_have :: "pyval list \<Rightarrow> error + dimm_key list" where
  "collect_have [] = Inr []"
| "collect_have (d # ds) =
     (if truthy d
      then (case parsed_key d of
              Inl err \<Rightarrow> Inl err
            | Inr k \<Rightarrow>
                (case collect_have ds of
                   Inl err \<Rightarrow> Inl err
                 | Inr ks \<Rightarrow> Inr (k # ks)))
      else collect_have ds)"

text \<open>The loop over \<open>expected_dimms\<close>: it appends \<open>e["slot"]\<close> to \<open>missing\<close> when
  the tuple of \<open>e\<close> is not in \<open>have\<close>.\<close>

fun check_expected :: "dimm_key list \<Rightarrow> pyval list \<Rightarrow> error + pyval list" where
  "check_expected have [] = Inr []"
| "check_expected have (e # es) =
     (case expected_key e of
        Inl err \<Rightarrow> Inl err
      | Inr k \<Rightarrow>
          (case check_expected have es of
             Inl err \<Rightarrow> Inl err
           | Inr missing \<Rightarrow>
               Inr (if list_ex (key_eq k) have then missing else fst k # missing)))"

definition all_expected_dimms :: "pydict \<Rightarrow> pyval \<Rightarrow> error + (bool \<times> step_note)" where
  "all_expected_dimms parsed expected_dimms =
     ebind (py_iter (py_get_default parsed ''dimms'' (PList []))) (\<lambda>ds.
     ebind (collect_have ds) (\<lambda>have.
     ebind (py_iter expected_dimms) (\<lambda>es.
     ebind (check_expected have es) (\<lambda>missing.
       let ok = (missing = [])
       in Inr (ok, if ok then NoteText ''All DIMMs present'' else NoteMissing missing)))))"

section \<open>The job runner (runner.py)\<close>

text \<open>
  The registries \<open>PARSERS\<close> and \<open>VALIDATORS\<close> map names to functions. The
  functions modelled here are \<open>parse_meminfo\<close>, \<open>total_mem_within_pct\<close> and
  \<open>all_expected_dimms\<close>; the other entries, and Python's \<open>float(s)\<close> (a float, or
  \<open>None\<close> here when it raises \<open>ValueError\<close>), are taken as given: \<open>ext_parser name\<close> and
  \<open>ext_validator name\<close> stand for the registered function of that name, and what is
  proved holds whatever they do.
\<close>

record Externals =
  ext_float :: "string \<Rightarrow> pyfloat option"
  ext_parser :: "string \<Rightarrow> string \<Rightarrow> error + pydict"
  ext_validator :: "string \<Rightarrow> pydict \<Rightarrow> pyval list \<Rightarrow> error + (bool \<times> step_note)"

definition OTHER_PARSERS :: "string list" where
  "OTHER_PARSERS =
     [''parse_dmidecode'', ''parse_ethtool'', ''parse_ethtool_stats'', ''parse_sysfs_nic'',
      ''parse_smart'', ''parse_ipmi_psu'', ''parse_ipmi_fans'', ''parse_ipmi_thermal'',
      ''parse_dmesg'', ''parse_os_release'']"

definition PARSERS :: "Externals \<Rightarrow> string \<Rightarrow> (string \<Rightarrow> error + pydict) option" where
  "PARSERS ext name =
     (if name = ''parse_meminfo'' then Some parse_meminfo
      else if name \<in> set OTHER_PARSERS then Some (ext_parser ext name)
      else None)"

definition OTHER_VALIDATORS :: "string list" where
  "OTHER_VALIDATORS =
     [''nic_link_up'', ''nic_speed_at_least'', ''nic_no_errors'', ''disk_smart_pass'',
      ''no_critical_logs'']"

text \<open>
  \<open>vfn(parsed, *args)\<close>: \<open>total_mem_within_pct\<close> takes up to two more arguments,
  with the defaults \<open>expected_gib = 16.0\<close> and \<open>pct = 2.0\<close>; \<open>all_expected_dimms\<close>
  takes exactly one; any other number of arguments is a \<open>TypeError\<close>.
\<close>

definition call_total_mem_within_pct :: "pydict \<Rightarrow> pyval list \<Rightarrow> error + (bool \<times> step_note)" where
  "call_total_mem_within_pct parsed args =
     (case args of
        [] \<Rightarrow> total_mem_within_pct parsed (PFloat (Finite 16)) (PFloat (Finite 2))
      | [expected_gib] \<Rightarrow> total_mem_within_pct parsed expected_gib (PFloat (Finite 2))
      | [expected_gib, pct] \<Rightarrow> total_mem_within_pct parsed expected_gib pct
      | _ \<Rightarrow> Inl TypeError)"

definition call_all_expected_dimms :: "pydict \<Rightarrow> pyval list \<Rightarrow> error + (bool \<times> step_note)" where
  "call_all_expected_dimms parsed args =
     (case args of
        [expected_dimms] \<Rightarrow> all_expected_dimms parsed expected_dimms
      | _ \<Rightarrow> Inl TypeError)"

definition VALIDATORS ::
  "Externals \<Rightarrow> string \<Rightarrow> (pydict \<Rightarrow> pyval list \<Rightarrow> error + (bool \<times> step_note)) option" where
  "VALIDATORS ext name =
     (if name = ''total_mem_within_pct'' then Some call_total_mem_within_pct
      else if name = ''all_expected_dimms'' then Some call_all_expected_dimms
      else if name \<in> set OTHER_VALIDATORS then Some (ext_validator ext name)
      else None)"

subsection \<open>\_parse\_validator\_spec\<close>

text \<open>
  \<open>s.split(",")\<close>: the pieces between the separators, empty ones included.
  \<open>a.isdigit()\<close>: a non-empty string of digit characters, which below code point 256
  are the ASCII digits and the superscripts two, three and one (178, 179, 185);
  \<open>int(a)\<close> accepts only the ASCII digits and raises \<open>ValueError\<close> otherwise.
\<close>

fun split_on :: "char \<Rightarrow> string \<Rightarrow> string list" where
  "split_on sep [] = [[]]"
| "split_on sep (c # cs) =
     (if c = sep then [] # split_on sep cs
      else (case split_on sep cs of
              [] \<Rightarrow> [[c]]
            | r # rs \<Rightarrow> (c # r) # rs))"

definition isdigit :: "string \<Rightarrow> bool" where
  "isdigit a =
     (a \<noteq> [] \<and>
      list_all (\<lambda>c. let n = (of_char c :: nat) in
                      (48 \<le> n \<and> n \<le> 57) \<or> n = 178 \<or> n = 179 \<or> n = 185) a)"

definition py_int :: "string \<Rightarrow> error + int" where
  "py_int a =
     (if a \<noteq> [] \<and> list_all is_ascii_digit a then py_int_digits a
      else Inl (ValueError (''invalid literal for int() with base 10: '' @ a)))"

text \<open>The best-effort cast of one argument: \<open>int\<close> when \<open>isdigit\<close>, else \<open>float\<close>,
  else the string itself.\<close>

definition cast_arg :: "Externals \<Rightarrow> string \<Rightarrow> error + pyval" where
  "cast_arg ext a =
     (if isdigit a then ebind (py_int a) (\<lambda>i. Inr (PInt i))
      else (case ext_float ext a of
              Some f \<Rightarrow> Inr (PFloat f)
            | None \<Rightarrow> Inr (PStr a)))"

fun cast_args :: "Externals \<Rightarrow> string list \<Rightarrow> error + pyval list" where
  "cast_args ext [] = Inr []"
| "cast_args ext (a # as) =
     (case cast_arg ext a of
        Inl e \<Rightarrow> Inl e
      | Inr v \<Rightarrow>
          (case cast_args ext as of
             Inl e \<Rightarrow> Inl e
           | Inr vs \<Rightarrow> Inr (v # vs)))"

definition parse_validator_spec :: "Externals \<Rightarrow> string \<Rightarrow> error + (string \<times> pyval list)" where
  "parse_validator_spec ext spec =
     (if CHR ''('' \<notin> set spec then Inr (spec, [])
      else (let name = takeWhile (\<lambda>c. c \<noteq> CHR ''('') spec;
                rest = tl (dropWhile (\<lambda>c. c \<noteq> CHR ''('') spec);
                rest' = rev (dropWhile (\<lambda>c. c = CHR '')'') (rev rest));
                raw_args = filter (\<lambda>a. a \<noteq> []) (map strip (split_on CHR '','' rest'))
            in ebind (cast_args ext raw_args) (\<lambda>args. Inr (name, args))))"

subsection \<open>Judging\<close>

record PerStep =
  ps_id :: string
  ps_ok :: bool
  ps_notes :: step_note

record VerificationResult =
  vr_status :: string
  vr_summary :: string
  vr_per_step :: "PerStep list"
  vr_evidence :: "pydict list"

text \<open>
  \<open>parser_fn = PARSERS.get(step.parser) if step.parser else None\<close> and
  \<open>parsed = parser_fn(rr.stdout) if parser_fn else {"raw_len": len(rr.stdout)}\<close>.
\<close>

definition parse_step :: "Externals \<Rightarrow> ExecStep \<Rightarrow> RawResult \<Rightarrow> error + pydict" where
  "parse_step ext step rr =
     (case (case es_parser step of
              None \<Rightarrow> None
            | Some name \<Rightarrow> if name = [] then None else PARSERS ext name) of
        Some parser_fn \<Rightarrow> parser_fn (rr_stdout rr)
      | None \<Rightarrow> Inr [(''raw_len'', PInt (int (length (rr_stdout rr))))])"

text \<open>
  The context-driven defaults: for \<open>total_mem_within_pct\<close> without arguments,
  \<open>exp = ctx.get("expected_total_gib") or ctx.get("expected", {}).get("total_gib")\<close>
  and \<open>pct = ctx.get("pct", 2)\<close>; for \<open>all_expected_dimms\<close> without arguments,
  \<open>ctx.get("expected_dimms", [])\<close>.
\<close>

definition validator_args :: "pydict \<Rightarrow> string \<Rightarrow> pyval list \<Rightarrow> error + pyval list" where
  "validator_args ctx v_name args =
     (if v_name = ''total_mem_within_pct'' \<and> args = []
      then (let e1 = py_get ctx ''expected_total_gib'' in
            ebind (if truthy e1 then Inr e1
                   else ebind (py_dict (py_get_default ctx ''expected'' (PDict [])))
                          (\<lambda>ed. Inr (py_get ed ''total_gib'')))
              (\<lambda>exp. Inr [exp, py_get_default ctx ''pct'' (PInt 2)]))
      else if v_name = ''all_expected_dimms'' \<and> args = []
      then Inr [py_get_default ctx ''expected_dimms'' (PList [])]
      else Inr args)"

text \<open>The body of the loop over \<open>zip(plan.steps, raw)\<close>, for one step: the entry it
  appends to \<open>per_step\<close>.\<close>

definition judge_step :: "Externals \<Rightarrow> pydict \<Rightarrow> ExecStep \<Rightarrow> RawResult \<Rightarrow> error + PerStep" where
  "judge_step ext ctx step rr =
     ebind (parse_step ext step rr) (\<lambda>parsed.
       case (case es_validator step of
               None \<Rightarrow> None
             | Some spec \<Rightarrow> if spec = [] then None else Some spec) of
         None \<Rightarrow> Inr \<lparr> ps_id = es_id step, ps_ok = True, ps_notes = NoteText [] \<rparr>
       | Some spec \<Rightarrow>
           ebind (parse_validator_spec ext spec) (\<lambda>na.
             case VALIDATORS ext (fst na) of
               None \<Rightarrow>
                 Inr \<lparr> ps_id = es_id step, ps_ok = False,
                       ps_notes = NoteText (''Unknown validator '' @ fst na) \<rparr>
             | Some vfn \<Rightarrow>
                 ebind (validator_args ctx (fst na) (snd na)) (\<lambda>args.
                 ebind (vfn parsed args) (\<lambda>r.
                   Inr \<lparr> ps_id = es_id step, ps_ok = fst r, ps_notes = snd r \<rparr>))))"

fun judge_steps :: "Externals \<Rightarrow> pydict \<Rightarrow> (ExecStep \<times> RawResult) list \<Rightarrow> error + PerStep list" where
  "judge_steps ext ctx [] = Inr []"
| "judge_steps ext ctx (p # ps) =
     (case judge_step ext ctx (fst p) (snd p) of
        Inl e \<Rightarrow> Inl e
      | Inr r \<Rightarrow>
          (case judge_steps ext ctx ps of
             Inl e \<Rightarrow> Inl e
           | Inr rs \<Rightarrow> Inr (r # rs)))"

subsection \<open>\_run\_job\_thread and stream\_events\<close>

text \<open>
  What a run of \<open>_run_job_thread\<close> leaves behind: the events it has put on the job's
  queue, in order; the job's \<open>result\<close> (\<open>None\<close> until it is set); and the exception
  that ended the thread, if one did. The thread first runs \<open>execute_plan\<close>, whose
  \<open>on_event\<close> puts each event on the (unbounded) queue; an exception in the judging
  loop is caught nowhere and ends the thread before \<open>bundle["result"]\<close> is set and
  before the verdict is put on the queue.
\<close>

record JobRun =
  jr_events :: "event list"
  jr_result :: "VerificationResult option"
  jr_error :: "error option"

definition run_job_thread :: "Externals \<Rightarrow> remote \<Rightarrow> ToDoDSL \<Rightarrow> ExecStep list \<Rightarrow> JobRun" where
  "run_job_thread ext rem dsl plan =
     (let run = execute_plan rem (dsl_target_host dsl) plan;
          raw = fst run;
          emitted = snd run
      in case judge_steps ext (dsl_context dsl) (zip plan raw) of
           Inl e \<Rightarrow> \<lparr> jr_events = emitted, jr_result = None, jr_error = Some e \<rparr>
         | Inr per_step \<Rightarrow>
             (let ok_all = list_all ps_ok per_step;
                  status = (if ok_all then ''SUCCESS'' else ''FAILED'');
                  summary = (if ok_all then ''All criteria passed.''
                             else ''One or more criteria failed.'')
              in \<lparr> jr_events = emitted @ [Verdict status summary],
                   jr_result = Some \<lparr> vr_status = status, vr_summary = summary,
                                       vr_per_step = per_step, vr_evidence = [] \<rparr>,
                   jr_error = None \<rparr>))"

text \<open>
  \<open>stream_events\<close>: the generator yields the plan preview, then takes events off the
  queue, yielding each, until it has yielded a verdict. \<open>drain q\<close> is that loop on a
  queue holding \<open>q\<close> to which nothing more is added: the events yielded, what is left on
  the queue, and whether the generator has finished (it has not when the queue runs empty
  before a verdict: \<open>evq.get()\<close> blocks).
\<close>

fun is_verdict :: "event \<Rightarrow> bool" where
  "is_verdict (Verdict status summary) = True"
| "is_verdict e = False"



section \<open>Matching of DIMMs, as the claim about all\_expected\_dimms speaks of it\<close>





section \<open>Example inputs\<close>

text \<open>A two-step plan, and an environment whose first call times out while the second
  completes with exit status 0.\<close>

definition ex_plan2 :: "ExecStep list" where
  "ex_plan2 =
     [\<lparr> es_id = ''s1'', es_cmd = ''cat /proc/meminfo'', es_timeout_s = 10,
        es_parser = Some ''parse_meminfo'', es_validator = None \<rparr>,
      \<lparr> es_id = ''s2'', es_cmd = ''cat /etc/os-release'', es_timeout_s = 10,
        es_parser = Some ''parse_os_release'', es_validator = None \<rparr>]"

definition ex_remote_timeout_first :: remote where
  "ex_remote_timeout_first n host cmd timeout =
     (if n = 0 then (TimedOut, 10000) else (Completed 0 (Some ''ID=debian'') (Some []), 7))"

text \<open>
  A catalog with one profile, which allows \<open>sudo\<close> for \<open>dmidecode\<close> and
  \<open>smartctl\<close>, and DSLs over it, one step per action named. The action
  \<open>probe_disk\<close> runs \<open>wipefs\<close> under \<open>sudo\<close>; its entry is marked read-only and
  \<open>smartctl\<close> is merely the third word of its command.
\<close>

definition ex_entry :: "string \<Rightarrow> bool \<Rightarrow> bool \<Rightarrow> pyval" where
  "ex_entry cmd read_only requires_sudo =
     PDict [(''cmd'', PStr cmd), (''read_only'', PBool read_only),
            (''requires_sudo'', PBool requires_sudo)]"

definition ex_catalog :: Catalog where
  "ex_catalog =
     \<lparr> cat_actions =
         [(''read_meminfo'', ex_entry ''cat /proc/meminfo'' True False),
          (''read_dimms'', ex_entry ''sudo dmidecode -t memory'' True True),
          (''read_smart'', ex_entry ''sudo -n smartctl -H {dev}'' True True),
          (''probe_disk'', ex_entry ''sudo wipefs smartctl /dev/sda'' True True),
          (''wipe_disk'', ex_entry ''wipefs -a {dev}'' False False),
          (''empty_entry'', PDict [])],
       cat_profiles =
         [(''verify_readonly'',
           PDict [(''max_timeout_s'', PInt 30),
                  (''allow_sudo'', PList [PStr ''dmidecode'', PStr ''smartctl''])])] \<rparr>"

definition ex_step :: "string \<Rightarrow> ToDoStep" where
  "ex_step a = \<lparr> ts_id = ''s_'' @ a, ts_action = a, ts_args = [], ts_timeout_s = 10,
                 ts_parser = None, ts_validator = None \<rparr>"

definition ex_dsl :: "string list \<Rightarrow> ToDoDSL" where
  "ex_dsl actions =
     \<lparr> dsl_job_id = ''j1'', dsl_profile = ''verify_readonly'', dsl_target_host = ''h'',
       dsl_context = [], dsl_prechecks = [],
       dsl_steps = map ex_step actions,
       dsl_postchecks = [], dsl_success_criteria = [] \<rparr>"

text \<open>
  An environment whose first command prints 262144 times the letter e with an acute accent (code point
  233, two bytes in UTF-8) and exits with status 0, and whose second command prints
  262145 letters \<open>a\<close> and ends without an exit status.
\<close>

definition ex_remote_wide :: remote where
  "ex_remote_wide n host cmd timeout =
     (if n = 0 then (Completed 0 (Some (replicate 262144 (char_of (233 :: nat)))) (Some []), 5)
      else (CompletedNoStatus (Some (replicate 262145 CHR ''a'')) (Some [])
              ''exit_code: none is not an allowed value'', 5))"

text \<open>
  The scenario of the specification: a job with the single step \<open>s1\<close>, parser
  \<open>parse_meminfo\<close>, validator \<open>total_mem_within_pct(16,2)\<close>, against a host whose
  command prints the given text and exits with status 0.
\<close>

definition ex_remote_prints :: "string \<Rightarrow> remote" where
  "ex_remote_prints out n host cmd timeout = (Completed 0 (Some out) (Some []), 3)"

definition ex_meminfo_plan :: "string \<Rightarrow> ExecStep list" where
  "ex_meminfo_plan validator =
     [\<lparr> es_id = ''s1'', es_cmd = ''cat /proc/meminfo'', es_timeout_s = 10,
        es_parser = Some ''parse_meminfo'', es_validator = Some validator \<rparr>]"

definition ex_meminfo_dsl :: "pydict \<Rightarrow> string \<Rightarrow> ToDoDSL" where
  "ex_meminfo_dsl ctx validator =
     \<lparr> dsl_job_id = ''j1'', dsl_profile = ''verify_readonly'', dsl_target_host = ''h'',
       dsl_context = ctx, dsl_prechecks = [],
       dsl_steps = [\<lparr> ts_id = ''s1'', ts_action = ''read_meminfo'', ts_args = [],
                      ts_timeout_s = 10, ts_parser = Some ''parse_meminfo'',
                      ts_validator = Some validator \<rparr>],
       dsl_postchecks = [], dsl_success_criteria = [] \<rparr>"

text \<open>Stand-ins for what is not modelled: a \<open>float\<close> that accepts nothing, parsers that
  return an empty dictionary and validators that accept.\<close>

definition ex_externals :: Externals where
  "ex_externals =
     \<lparr> ext_float = (\<lambda>s. None),
       ext_parser = (\<lambda>name out. Inr []),
       ext_validator = (\<lambda>name parsed args. Inr (True, NoteText [])) \<rparr>"



section \<open>Properties of the critic\<close>

lemma critic_patch_id: "ts_id (critic_patch v) = ''s_fallback_sysfs''"
  by (simp add: critic_patch_def)

lemma critic_Some_steps:
  assumes "critic_propose_patch dsl failure = Some dsl'"
  shows "dsl' = dsl\<lparr>dsl_steps := dsl_steps dsl @ [critic_patch (critic_iface (dsl_steps dsl))]\<rparr>"
  using assms
  by (auto simp: critic_propose_patch_def Let_def split: if_splits)

lemma critic_has_fallback_None:
  assumes "list_ex (\<lambda>s. ts_id s = ''s_fallback_sysfs'') (dsl_steps dsl)"
  shows "critic_propose_patch dsl failure = None"
  using assms
  by (simp add: critic_propose_patch_def Let_def critic_patch_id)

text \<open>
  C9. The critic never removes steps: whenever it returns a DSL, that DSL's steps are the
  original steps followed by at most one new step (and every other field is unchanged);
  and it is idempotent on a patched DSL: on a DSL that already has a step with the
  fallback id it returns nothing, in particular on the DSL it has just returned,
  whatever the failure record.
\<close>

theorem critic_never_removes_and_idempotent:
  "(critic_propose_patch dsl failure = Some dsl' \<longrightarrow>
      (\<exists>extra. dsl_steps dsl' = dsl_steps dsl @ extra \<and> length extra \<le> 1
         \<and> dsl' = dsl\<lparr>dsl_steps := dsl_steps dsl @ extra\<rparr>)
      \<and> critic_propose_patch dsl' failure2 = None)
   \<and> (list_ex (\<lambda>s. ts_id s = ''s_fallback_sysfs'') (dsl_steps dsl) \<longrightarrow>
        critic_propose_patch dsl failure = None)"
proof (intro conjI impI)
  assume ret: "critic_propose_patch dsl failure = Some dsl'"
  let ?p = "critic_patch (critic_iface (dsl_steps dsl))"
  have eq: "dsl' = dsl\<lparr>dsl_steps := dsl_steps dsl @ [?p]\<rparr>"
    by (rule critic_Some_steps [OF ret])
  then have "dsl_steps dsl' = dsl_steps dsl @ [?p] \<and> length [?p] \<le> 1
      \<and> dsl' = dsl\<lparr>dsl_steps := dsl_steps dsl @ [?p]\<rparr>"
    by simp
  then show "\<exists>extra. dsl_steps dsl' = dsl_steps dsl @ extra \<and> length extra \<le> 1
         \<and> dsl' = dsl\<lparr>dsl_steps := dsl_steps dsl @ extra\<rparr>"
    by blast
  have "list_ex (\<lambda>s. ts_id s = ''s_fallback_sysfs'') (dsl_steps dsl')"
    by (simp add: eq critic_patch_id)
  then show "critic_propose_patch dsl' failure2 = None"
    by (rule critic_has_fallback_None)
next
  assume "list_ex (\<lambda>s. ts_id s = ''s_fallback_sysfs'') (dsl_steps dsl)"
  then show "critic_propose_patch dsl failure = None"
    by (rule critic_has_fallback_None)
qed

theorem critic_never_removes_and_idempotent_witness:
  "critic_propose_patch
     \<lparr> dsl_job_id = ''j1'', dsl_profile = ''verify_readonly'', dsl_target_host = ''h'',
       dsl_context = [(''component'', PStr ''nic'')], dsl_prechecks = [],
       dsl_steps = [\<lparr> ts_id = ''s1'', ts_action = ''read_nic_ethtool'',
                      ts_args = [(''iface'', PStr ''eth1'')], ts_timeout_s = 10,
                      ts_parser = Some ''parse_ethtool'', ts_validator = Some ''nic_link_up'' \<rparr>],
       dsl_postchecks = [], dsl_success_criteria = [] \<rparr>
     [(''parser'', PStr ''parse_ethtool'')]
   = Some
     \<lparr> dsl_job_id = ''j1'', dsl_profile = ''verify_readonly'', dsl_target_host = ''h'',
       dsl_context = [(''component'', PStr ''nic'')], dsl_prechecks = [],
       dsl_steps = [\<lparr> ts_id = ''s1'', ts_action = ''read_nic_ethtool'',
                      ts_args = [(''iface'', PStr ''eth1'')], ts_timeout_s = 10,
                      ts_parser = Some ''parse_ethtool'', ts_validator = Some ''nic_link_up'' \<rparr>,
                    \<lparr> ts_id = ''s_fallback_sysfs'', ts_action = ''read_sysfs_nic'',
                      ts_args = [(''iface'', PStr ''eth1'')], ts_timeout_s = 5,
                      ts_parser = Some ''parse_sysfs_nic'', ts_validator = None \<rparr>],
       dsl_postchecks = [], dsl_success_criteria = [] \<rparr>
   \<and> critic_propose_patch
     \<lparr> dsl_job_id = ''j1'', dsl_profile = ''verify_readonly'', dsl_target_host = ''h'',
       dsl_context = [(''component'', PStr ''nic'')], dsl_prechecks = [],
       dsl_steps = [\<lparr> ts_id = ''s1'', ts_action = ''read_nic_ethtool'',
                      ts_args = [(''iface'', PStr ''eth1'')], ts_timeout_s = 10,
                      ts_parser = Some ''parse_ethtool'', ts_validator = Some ''nic_link_up'' \<rparr>,
                    \<lparr> ts_id = ''s_fallback_sysfs'', ts_action = ''read_sysfs_nic'',
                      ts_args = [(''iface'', PStr ''eth1'')], ts_timeout_s = 5,
                      ts_parser = Some ''parse_sysfs_nic'', ts_validator = None \<rparr>],
       dsl_postchecks = [], dsl_success_criteria = [] \<rparr>
     [(''parser'', PStr ''parse_ethtool'')]
   = None"
  (is "?run = Some ?d' \<and> ?again = None")
proof -
  have r: "?run = Some ?d'"
    by (simp add: critic_propose_patch_def critic_patch_def critic_iface_def py_get_def
        startswith_def Let_def)
  from critic_never_removes_and_idempotent r have "?again = None"
    by blast
  with r show ?thesis by simp
qed

section \<open>Properties of remote execution\<close>

lemma execute_plan_from_length:
  "length (fst (execute_plan_from rem host n plan)) = length plan"
  by (induction plan arbitrary: n) (simp_all add: Let_def)

lemma execute_plan_from_nth:
  "j < length plan \<Longrightarrow>
   fst (execute_plan_from rem host n plan) ! j =
     (run_cmd rem (n + j) host (es_cmd (plan ! j)) (es_timeout_s (plan ! j)))
       \<lparr>rr_step_id := es_id (plan ! j)\<rparr>"
proof (induction plan arbitrary: n j)
  case Nil
  then show ?case by simp
next
  case (Cons s ss)
  show ?case
  proof (cases j)
    case 0
    then show ?thesis by (simp add: Let_def)
  next
    case (Suc k)
    with Cons.prems have "k < length ss" by simp
    from Cons.IH [OF this, of "Suc n"] Suc show ?thesis by (simp add: Let_def)
  qed
qed

lemma execute_plan_from_events:
  "snd (execute_plan_from rem host n plan) =
     concat (map (\<lambda>j. [StepStart (es_id (plan ! j)) (es_cmd (plan ! j)),
                        StepResult (es_id (plan ! j))
                          (rr_exit_code (fst (execute_plan_from rem host n plan) ! j))
                          (rr_duration_ms (fst (execute_plan_from rem host n plan) ! j))])
                 [0..<length plan])"
proof (induction plan arbitrary: n)
  case Nil
  then show ?case by simp
next
  case (Cons s ss)
  have "[0..<length (s # ss)] = 0 # map Suc [0..<length ss]"
    by (simp add: upt_conv_Cons map_Suc_upt del: upt_Suc)
  then show ?case
    using Cons.IH [of "Suc n"] by (simp add: Let_def comp_def)
qed

lemma run_cmd_timeout:
  "fst (rem n host cmd t) = TimedOut \<Longrightarrow>
   rr_exit_code (run_cmd rem n host cmd t) = 124 \<and> rr_stderr (run_cmd rem n host cmd t) = ''TIMEOUT''"
  by (cases "rem n host cmd t") (simp add: run_cmd_def)

lemma execute_plan_event_mem:
  assumes "j < length plan"
  shows "StepStart (es_id (plan ! j)) (es_cmd (plan ! j)) \<in> set (snd (execute_plan_from rem host n plan))"
    and "StepResult (es_id (plan ! j))
           (rr_exit_code (fst (execute_plan_from rem host n plan) ! j))
           (rr_duration_ms (fst (execute_plan_from rem host n plan) ! j))
         \<in> set (snd (execute_plan_from rem host n plan))"
  using assms by (subst execute_plan_from_events, force)+

text \<open>
  C4. For every plan: the run yields one result per step, in plan order, each the result
  of that step's own remote call; a step whose remote call times out has
  \<open>exit_code = 124\<close> and \<open>stderr = "TIMEOUT"\<close>; and every later step is still executed:
  it has its own result (under its own id) and its \<open>step_start\<close> and \<open>step_result\<close>
  events were emitted.
\<close>

theorem timeout_yields_124_and_plan_continues:
  "length (fst (execute_plan rem host plan)) = length plan
   \<and> (\<forall>i < length plan.
        fst (rem i host (es_cmd (plan ! i)) (es_timeout_s (plan ! i))) = TimedOut \<longrightarrow>
          rr_step_id (fst (execute_plan rem host plan) ! i) = es_id (plan ! i)
          \<and> rr_exit_code (fst (execute_plan rem host plan) ! i) = 124
          \<and> rr_stderr (fst (execute_plan rem host plan) ! i) = ''TIMEOUT''
          \<and> (\<forall>j. i < j \<and> j < length plan \<longrightarrow>
               fst (execute_plan rem host plan) ! j =
                 (run_cmd rem j host (es_cmd (plan ! j)) (es_timeout_s (plan ! j)))
                   \<lparr>rr_step_id := es_id (plan ! j)\<rparr>
               \<and> StepStart (es_id (plan ! j)) (es_cmd (plan ! j))
                   \<in> set (snd (execute_plan rem host plan))
               \<and> StepResult (es_id (plan ! j))
                    (rr_exit_code (fst (execute_plan rem host plan) ! j))
                    (rr_duration_ms (fst (execute_plan rem host plan) ! j))
                   \<in> set (snd (execute_plan rem host plan))))"
proof (intro conjI allI impI)
  show "length (fst (execute_plan rem host plan)) = length plan"
    by (simp add: execute_plan_def execute_plan_from_length)
next
  fix i
  assume i: "i < length plan"
    and t: "fst (rem i host (es_cmd (plan ! i)) (es_timeout_s (plan ! i))) = TimedOut"
  have r: "fst (execute_plan rem host plan) ! i =
      (run_cmd rem i host (es_cmd (plan ! i)) (es_timeout_s (plan ! i)))\<lparr>rr_step_id := es_id (plan ! i)\<rparr>"
    using execute_plan_from_nth [OF i, of rem host 0] by (simp add: execute_plan_def)
  show "rr_step_id (fst (execute_plan rem host plan) ! i) = es_id (plan ! i)"
    by (simp add: r)
  show "rr_exit_code (fst (execute_plan rem host plan) ! i) = 124"
    using run_cmd_timeout [of rem i host "es_cmd (plan ! i)" "es_timeout_s (plan ! i)"] t by (simp add: r)
  show "rr_stderr (fst (execute_plan rem host plan) ! i) = ''TIMEOUT''"
    using run_cmd_timeout [of rem i host "es_cmd (plan ! i)" "es_timeout_s (plan ! i)"] t by (simp add: r)
next
  fix i j
  assume "i < j \<and> j < length plan"
  then have j: "j < length plan" by simp
  show "fst (execute_plan rem host plan) ! j =
      (run_cmd rem j host (es_cmd (plan ! j)) (es_timeout_s (plan ! j)))\<lparr>rr_step_id := es_id (plan ! j)\<rparr>"
    using execute_plan_from_nth [OF j, of rem host 0] by (simp add: execute_plan_def)
  show "StepStart (es_id (plan ! j)) (es_cmd (plan ! j)) \<in> set (snd (execute_plan rem host plan))"
    unfolding execute_plan_def by (rule execute_plan_event_mem(1) [OF j])
  show "StepResult (es_id (plan ! j))
          (rr_exit_code (fst (execute_plan rem host plan) ! j))
          (rr_duration_ms (fst (execute_plan rem host plan) ! j))
        \<in> set (snd (execute_plan rem host plan))"
    unfolding execute_plan_def by (rule execute_plan_event_mem(2) [OF j])
qed

theorem timeout_yields_124_and_plan_continues_witness:
  "fst (ex_remote_timeout_first 0 ''h'' (es_cmd (ex_plan2 ! 0)) (es_timeout_s (ex_plan2 ! 0))) = TimedOut
   \<and> rr_exit_code (fst (execute_plan ex_remote_timeout_first ''h'' ex_plan2) ! 0) = 124
   \<and> rr_stderr (fst (execute_plan ex_remote_timeout_first ''h'' ex_plan2) ! 0) = ''TIMEOUT''
   \<and> fst (execute_plan ex_remote_timeout_first ''h'' ex_plan2) ! 1 =
       \<lparr> rr_step_id = ''s2'', rr_exit_code = 0, rr_stdout = ''ID=debian'', rr_stderr = [],
         rr_duration_ms = 7, rr_truncated = False \<rparr>
   \<and> StepStart ''s2'' ''cat /etc/os-release''
       \<in> set (snd (execute_plan ex_remote_timeout_first ''h'' ex_plan2))"
proof -
  have t: "fst (ex_remote_timeout_first 0 ''h'' (es_cmd (ex_plan2 ! 0)) (es_timeout_s (ex_plan2 ! 0))) = TimedOut"
    by (simp add: ex_remote_timeout_first_def)
  have len: "(0::nat) < length ex_plan2" "(0::nat) < 1 \<and> (1::nat) < length ex_plan2"
    by (simp_all add: ex_plan2_def)
  note main = timeout_yields_124_and_plan_continues [of ex_remote_timeout_first "''h''" ex_plan2]
  from main len(1) t
  have a: "rr_exit_code (fst (execute_plan ex_remote_timeout_first ''h'' ex_plan2) ! 0) = 124
      \<and> rr_stderr (fst (execute_plan ex_remote_timeout_first ''h'' ex_plan2) ! 0) = ''TIMEOUT''"
    by blast
  from main len t
  have b: "fst (execute_plan ex_remote_timeout_first ''h'' ex_plan2) ! 1 =
        (run_cmd ex_remote_timeout_first 1 ''h'' (es_cmd (ex_plan2 ! 1)) (es_timeout_s (ex_plan2 ! 1)))
           \<lparr>rr_step_id := es_id (ex_plan2 ! 1)\<rparr>
      \<and> StepStart (es_id (ex_plan2 ! 1)) (es_cmd (ex_plan2 ! 1))
           \<in> set (snd (execute_plan ex_remote_timeout_first ''h'' ex_plan2))"
    by blast
  have c: "(run_cmd ex_remote_timeout_first 1 ''h'' (es_cmd (ex_plan2 ! 1)) (es_timeout_s (ex_plan2 ! 1)))
           \<lparr>rr_step_id := es_id (ex_plan2 ! 1)\<rparr>
       = \<lparr> rr_step_id = ''s2'', rr_exit_code = 0, rr_stdout = ''ID=debian'', rr_stderr = [],
         rr_duration_ms = 7, rr_truncated = False \<rparr>"
    by (simp add: run_cmd_def ex_remote_timeout_first_def ex_plan2_def or_empty_def
        OUTPUT_CAP_def ERR_CAP_def)
  have d: "es_id (ex_plan2 ! 1) = ''s2''" "es_cmd (ex_plan2 ! 1) = ''cat /etc/os-release''"
    by (simp_all add: ex_plan2_def)
  from t a b c d show ?thesis by simp
qed

lemma utf8_length_replicate:
  "utf8_length (replicate n c) = n * (if (of_char c :: nat) < 128 then 1 else 2)"
  by (induction n) (simp_all add: utf8_length_def)

text \<open>
  C5. The claim bounds the stored output in bytes, as the comments on the two caps do
  (\<open># 256 KiB\<close>, \<open># 128 KiB\<close>); the code slices and measures strings, that is, code
  points. For a command that prints 262144 times the letter e with an acute accent and exits with
  status 0, \<open>run_cmd\<close> stores the whole output: 262144 characters, which are 524288
  bytes, twice the cap, and \<open>truncated\<close> is false. And for a command that ends without
  an exit status after printing 262145 characters, more than the cap, the result has
  \<open>exit_code\<close> 255, an empty \<open>stdout\<close> and \<open>truncated\<close> false, although the
  untruncated output exceeded the cap.
\<close>

theorem run_cmd_stores_more_bytes_than_cap:
  "rr_stdout (run_cmd ex_remote_wide 0 ''h'' ''cat notes.txt'' 10)
     = replicate 262144 (char_of (233 :: nat))
   \<and> length (rr_stdout (run_cmd ex_remote_wide 0 ''h'' ''cat notes.txt'' 10)) = 262144
   \<and> utf8_length (rr_stdout (run_cmd ex_remote_wide 0 ''h'' ''cat notes.txt'' 10)) = 524288
   \<and> rr_exit_code (run_cmd ex_remote_wide 0 ''h'' ''cat notes.txt'' 10) = 0
   \<and> \<not> rr_truncated (run_cmd ex_remote_wide 0 ''h'' ''cat notes.txt'' 10)
   \<and> rr_exit_code (run_cmd ex_remote_wide 1 ''h'' ''cat notes.txt'' 10) = 255
   \<and> rr_stdout (run_cmd ex_remote_wide 1 ''h'' ''cat notes.txt'' 10) = []
   \<and> \<not> rr_truncated (run_cmd ex_remote_wide 1 ''h'' ''cat notes.txt'' 10)"
proof -
  have r0: "run_cmd ex_remote_wide 0 ''h'' ''cat notes.txt'' 10 =
      \<lparr> rr_step_id = [], rr_exit_code = 0,
        rr_stdout = replicate 262144 (char_of (233 :: nat)), rr_stderr = [],
        rr_duration_ms = 5, rr_truncated = False \<rparr>"
    by (simp add: run_cmd_def ex_remote_wide_def or_empty_def OUTPUT_CAP_def ERR_CAP_def)
  have r1: "run_cmd ex_remote_wide 1 ''h'' ''cat notes.txt'' 10 =
      \<lparr> rr_step_id = [], rr_exit_code = 255, rr_stdout = [],
        rr_stderr = ''exit_code: none is not an allowed value'',
        rr_duration_ms = 5, rr_truncated = False \<rparr>"
    by (simp add: run_cmd_def ex_remote_wide_def)
  have b: "utf8_length (replicate 262144 (char_of (233 :: nat))) = 524288"
    unfolding utf8_length_replicate by simp
  from r0 r1 b show ?thesis by simp
qed

section \<open>Properties of the static audit\<close>

lemma contains_iff: "contains s p \<longleftrightarrow> (\<exists>pre post. s = pre @ p @ post)"
proof (induction s)
  case Nil
  then show ?case by auto
next
  case (Cons c cs)
  have a: "startswith (c # cs) p \<longleftrightarrow> (\<exists>post. c # cs = p @ post)"
    unfolding startswith_def
    by (metis append_eq_conv_conj append_take_drop_id)
  show ?case
  proof
    assume "contains (c # cs) p"
    then consider "startswith (c # cs) p" | "contains cs p" by auto
    then show "\<exists>pre post. c # cs = pre @ p @ post"
    proof cases
      case 1
      with a obtain post where "c # cs = [] @ p @ post" by auto
      then show ?thesis by blast
    next
      case 2
      with Cons.IH obtain pre post where "cs = pre @ p @ post" by blast
      then have "c # cs = (c # pre) @ p @ post" by simp
      then show ?thesis by blast
    qed
  next
    assume "\<exists>pre post. c # cs = pre @ p @ post"
    then obtain pre post where e: "c # cs = pre @ p @ post" by blast
    show "contains (c # cs) p"
    proof (cases pre)
      case Nil
      with e have "\<exists>post. c # cs = p @ post" by auto
      with a have "startswith (c # cs) p" by blast
      then show ?thesis by simp
    next
      case (Cons x xs)
      with e have "cs = xs @ p @ post" by simp
      with Cons.IH show ?thesis by auto
    qed
  qed
qed

lemma deny_lower_all: "list_all (\<lambda>p. lower p = p) DENY_PATTERNS"
  by code_simp

lemma deny_lower: "p \<in> set DENY_PATTERNS \<Longrightarrow> lower p = p"
  using deny_lower_all by (simp add: list_all_iff)

lemma contains_map: "contains s p \<Longrightarrow> contains (map f s) (map f p)"
  unfolding contains_iff by (metis map_append)

lemma contains_padded: "contains s p \<Longrightarrow> contains (a @ s @ b) p"
  unfolding contains_iff by (metis append.assoc)


lemma static_audit_Inr_iff:
  "static_audit cmd = Inr () \<longleftrightarrow> \<not> list_ex (contains (lower ('' '' @ cmd @ '' ''))) DENY_PATTERNS"
proof (cases "find (contains (lower ('' '' @ cmd @ '' ''))) DENY_PATTERNS")
  case None
  then have r: "static_audit cmd = Inr ()"
    by (simp add: static_audit_def Let_def)
  from None have "\<not> list_ex (contains (lower ('' '' @ cmd @ '' ''))) DENY_PATTERNS"
    unfolding find_None_iff list_ex_iff by blast
  with r show ?thesis by blast
next
  case (Some p)
  then have "p \<in> set DENY_PATTERNS \<and> contains (lower ('' '' @ cmd @ '' '')) p"
    unfolding find_Some_iff by auto
  then have "list_ex (contains (lower ('' '' @ cmd @ '' ''))) DENY_PATTERNS"
    unfolding list_ex_iff by blast
  moreover from Some have "static_audit cmd \<noteq> Inr ()"
    by (simp add: static_audit_def Let_def)
  ultimately show ?thesis by blast
qed

lemma static_audit_first_match:
  assumes "static_audit cmd \<noteq> Inr ()"
  shows "\<exists>i<length DENY_PATTERNS.
           contains (lower ('' '' @ cmd @ '' '')) (DENY_PATTERNS ! i)
         \<and> (\<forall>j<i. \<not> contains (lower ('' '' @ cmd @ '' '')) (DENY_PATTERNS ! j))
         \<and> static_audit cmd = Inl (ValueError (''Denied pattern in cmd: '' @ strip (DENY_PATTERNS ! i)))"
proof -
  let ?low = "lower ('' '' @ cmd @ '' '')"
  from assms obtain p where f: "find (contains ?low) DENY_PATTERNS = Some p"
    by (auto simp: static_audit_def Let_def split: option.splits)
  then have r: "static_audit cmd = Inl (ValueError (''Denied pattern in cmd: '' @ strip p))"
    by (simp add: static_audit_def Let_def)
  from f obtain i where "i < length DENY_PATTERNS" "contains ?low (DENY_PATTERNS ! i)"
    "p = DENY_PATTERNS ! i" "\<forall>j<i. \<not> contains ?low (DENY_PATTERNS ! j)"
    unfolding find_Some_iff by blast
  with r show ?thesis by blast
qed

lemma contains_cmd_padded_lowered:
  assumes "list_ex (contains cmd) DENY_PATTERNS"
  shows "list_ex (contains (lower ('' '' @ cmd @ '' ''))) DENY_PATTERNS"
proof -
  from assms obtain p where p: "p \<in> set DENY_PATTERNS" "contains cmd p"
    by (auto simp: list_ex_iff)
  from p(2) have "contains ('' '' @ cmd @ '' '') p" by (rule contains_padded)
  then have "contains (lower ('' '' @ cmd @ '' '')) (lower p)"
    unfolding lower_def by (rule contains_map)
  with deny_lower [OF p(1)] have "contains (lower ('' '' @ cmd @ '' '')) p" by simp
  with p(1) show ?thesis by (auto simp: list_ex_iff)
qed

text \<open>
  C2, as stated, fails. The command \<open>rm -rf /\<close> contains none of the deny-listed
  substrings (the pattern is \<open>" rm "\<close>, with a space on each side), yet the audit
  rejects it: the audit searches the command padded with a space on each side and
  lower-cased, where \<open>" rm "\<close> does occur.
\<close>

theorem static_audit_command_without_pattern_fails:
  "\<not> list_ex (contains ''rm -rf /'') DENY_PATTERNS
   \<and> static_audit ''rm -rf /'' = Inl (ValueError ''Denied pattern in cmd: rm'')"
  by code_simp

text \<open>
  C2, amended. For every command, \<open>static_audit\<close> succeeds exactly when the command,
  padded with one space on each side and lower-cased, contains no deny-listed pattern; it
  therefore fails whenever the command itself contains a deny-listed pattern; and when it
  fails, the error names, stripped of surrounding whitespace, the first pattern of the
  deny list that occurs in the padded, lower-cased command.
\<close>

theorem static_audit_fails_iff_padded_lowered_match:
  "(static_audit cmd = Inr () \<longleftrightarrow>
      \<not> list_ex (contains (lower ('' '' @ cmd @ '' ''))) DENY_PATTERNS)
   \<and> (list_ex (contains cmd) DENY_PATTERNS \<longrightarrow> static_audit cmd \<noteq> Inr ())
   \<and> (static_audit cmd \<noteq> Inr () \<longrightarrow>
        (\<exists>i<length DENY_PATTERNS.
            contains (lower ('' '' @ cmd @ '' '')) (DENY_PATTERNS ! i)
          \<and> (\<forall>j<i. \<not> contains (lower ('' '' @ cmd @ '' '')) (DENY_PATTERNS ! j))
          \<and> static_audit cmd =
              Inl (ValueError (''Denied pattern in cmd: '' @ strip (DENY_PATTERNS ! i)))))"
  using static_audit_Inr_iff [of cmd] static_audit_first_match [of cmd]
    contains_cmd_padded_lowered [of cmd]
  by blast

theorem static_audit_fails_iff_padded_lowered_match_witness:
  "list_ex (contains ''sudo shutdown -h now'') DENY_PATTERNS
   \<and> static_audit ''sudo shutdown -h now'' \<noteq> Inr ()
   \<and> static_audit ''sudo shutdown -h now'' = Inl (ValueError ''Denied pattern in cmd: shutdown'')
   \<and> static_audit ''cat /proc/meminfo'' = Inr ()"
proof -
  have h: "list_ex (contains ''sudo shutdown -h now'') DENY_PATTERNS"
    by code_simp
  from static_audit_fails_iff_padded_lowered_match [of "''sudo shutdown -h now''"] h
  have n: "static_audit ''sudo shutdown -h now'' \<noteq> Inr ()"
    by blast
  have v: "static_audit ''sudo shutdown -h now'' = Inl (ValueError ''Denied pattern in cmd: shutdown'')"
    by code_simp
  have c: "\<not> list_ex (contains (lower ('' '' @ ''cat /proc/meminfo'' @ '' ''))) DENY_PATTERNS"
    by code_simp
  from static_audit_fails_iff_padded_lowered_match [of "''cat /proc/meminfo''"] c
  have "static_audit ''cat /proc/meminfo'' = Inr ()"
    by blast
  with h n v show ?thesis by simp
qed

section \<open>Properties of the policy gate\<close>

text \<open>
  C1. The gate means to check the binary that \<open>sudo\<close> runs (the code calls it
  \<open>bin_path\<close>, under the comment ``ensure binary path is allowed'', and reports
  ``sudo binary not allowed''), and the claim names that binary as the token following
  \<open>sudo\<close>. The code takes the third token of the template instead. For the action
  \<open>read_dimms\<close>, whose template is \<open>sudo dmidecode -t memory\<close>, the token following
  \<open>sudo\<close> is \<open>dmidecode\<close>, which the profile allows, so the DSL meets every
  condition of the claim; the gate rejects it, comparing \<open>-t\<close> with the allow-list.
  Conversely the action \<open>probe_disk\<close>, whose template is
  \<open>sudo wipefs smartctl /dev/sda\<close>, runs \<open>wipefs\<close>, which is not allowed, and the
  gate accepts it because the third token happens to be \<open>smartctl\<close>.
\<close>

theorem policy_gate_compares_third_token_not_sudo_binary:
  "spec_sudo_token ''sudo dmidecode -t memory'' = Some ''dmidecode''
   \<and> spec_complies (ex_dsl [''read_dimms'']) ex_catalog
   \<and> policy_gate (ex_dsl [''read_dimms'']) ex_catalog =
       Inl (ValueError ''sudo binary not allowed for action read_dimms: -t'')
   \<and> spec_sudo_token ''sudo wipefs smartctl /dev/sda'' = Some ''wipefs''
   \<and> \<not> spec_complies (ex_dsl [''probe_disk'']) ex_catalog
   \<and> policy_gate (ex_dsl [''probe_disk'']) ex_catalog = Inr ()"
  by code_simp

section \<open>Properties of the job runner\<close>

lemma execute_plan_from_no_verdict:
  "\<not> list_ex is_verdict (snd (execute_plan_from rem host n plan))"
  by (induction plan arbitrary: n) (simp_all add: Let_def)

lemma judge_steps_Inr_all:
  "judge_steps ext ctx ps = Inr rs \<Longrightarrow> p \<in> set ps \<Longrightarrow> \<exists>r. judge_step ext ctx (fst p) (snd p) = Inr r"
  by (induction ps arbitrary: rs) (auto split: sum.splits)

lemma judge_steps_raises:
  assumes "p \<in> set ps" and "judge_step ext ctx (fst p) (snd p) = Inl e"
  shows "\<exists>e'. judge_steps ext ctx ps = Inl e'"
proof (cases "judge_steps ext ctx ps")
  case (Inl e')
  then show ?thesis by blast
next
  case (Inr rs)
  from judge_steps_Inr_all [OF Inr assms(1)] assms(2) show ?thesis by simp
qed

lemma zip_plan_raw_mem:
  assumes "i < length plan"
  shows "(plan ! i, fst (execute_plan rem host plan) ! i) \<in> set (zip plan (fst (execute_plan rem host plan)))"
proof -
  have "length (fst (execute_plan rem host plan)) = length plan"
    by (simp add: execute_plan_def execute_plan_from_length)
  with assms show ?thesis
    by (auto simp: set_zip)
qed

lemma py_sub_None: "py_sub a PNone = Inl TypeError"
  by (simp add: py_sub_def split: option.splits num.splits)

lemma total_mem_within_pct_None:
  "total_mem_within_pct parsed PNone pct = Inl TypeError"
  by (simp add: total_mem_within_pct_def Let_def py_sub_None ebind_def)

lemma bare_spec:
  "parse_validator_spec ext ''total_mem_within_pct'' = Inr (''total_mem_within_pct'', [])"
  by (simp add: parse_validator_spec_def)

lemma validator_args_no_expected:
  assumes "map_of ctx ''expected_total_gib'' = None"
    and "map_of ctx ''expected'' = None \<or>
         (\<exists>ed. map_of ctx ''expected'' = Some (PDict ed) \<and> map_of ed ''total_gib'' = None)"
  shows "validator_args ctx ''total_mem_within_pct'' [] =
           Inr [PNone, py_get_default ctx ''pct'' (PInt 2)]"
  using assms
  by (auto simp: validator_args_def py_get_def py_get_default_def ebind_def Let_def)

lemma judge_step_bare_raises:
  assumes "es_validator step = Some ''total_mem_within_pct''"
    and "map_of ctx ''expected_total_gib'' = None"
    and "map_of ctx ''expected'' = None \<or>
         (\<exists>ed. map_of ctx ''expected'' = Some (PDict ed) \<and> map_of ed ''total_gib'' = None)"
  shows "judge_step ext ctx step rr =
           (case parse_step ext step rr of Inl e \<Rightarrow> Inl e | Inr parsed \<Rightarrow> Inl TypeError)"
  using assms(1)
  by (simp add: judge_step_def ebind_def bare_spec VALIDATORS_def
      validator_args_no_expected [OF assms(2,3)] call_total_mem_within_pct_def
      total_mem_within_pct_None split: sum.splits)


text \<open>
  C10. Let a step of the plan name its validator as the bare \<open>total_mem_within_pct\<close>,
  and let the job's context have neither the key \<open>expected_total_gib\<close> nor an
  \<open>expected\<close> map with the key \<open>total_gib\<close>. Then the arguments the judging phase
  builds for the validator are \<open>[None, pct]\<close>, the validator raises \<open>TypeError\<close> on
  them whatever was parsed, and the run of the job's thread ends with an exception: no
  verdict event is among the events it emitted and the job's result is still unset.
  When the step is the first of the plan and its parser returns, that exception is the
  validator's \<open>TypeError\<close>.
\<close>

theorem bare_total_mem_validator_kills_job:
  assumes "i < length plan"
    and "es_validator (plan ! i) = Some ''total_mem_within_pct''"
    and "map_of (dsl_context dsl) ''expected_total_gib'' = None"
    and "map_of (dsl_context dsl) ''expected'' = None \<or>
         (\<exists>ed. map_of (dsl_context dsl) ''expected'' = Some (PDict ed)
               \<and> map_of ed ''total_gib'' = None)"
  shows "validator_args (dsl_context dsl) ''total_mem_within_pct'' [] =
           Inr [PNone, py_get_default (dsl_context dsl) ''pct'' (PInt 2)]
         \<and> call_total_mem_within_pct parsed
              [PNone, py_get_default (dsl_context dsl) ''pct'' (PInt 2)] = Inl TypeError
         \<and> jr_error (run_job_thread ext rem dsl plan) \<noteq> None
         \<and> jr_result (run_job_thread ext rem dsl plan) = None
         \<and> \<not> list_ex is_verdict (jr_events (run_job_thread ext rem dsl plan))
         \<and> (i = 0 \<and> (\<exists>pd. parse_step ext (plan ! 0)
                             (fst (execute_plan rem (dsl_target_host dsl) plan) ! 0) = Inr pd)
              \<longrightarrow> jr_error (run_job_thread ext rem dsl plan) = Some TypeError)"
proof -
  let ?ctx = "dsl_context dsl"
  let ?run = "execute_plan rem (dsl_target_host dsl) plan"
  let ?raw = "fst ?run"
  have a: "validator_args ?ctx ''total_mem_within_pct'' [] =
      Inr [PNone, py_get_default ?ctx ''pct'' (PInt 2)]"
    by (rule validator_args_no_expected [OF assms(3,4)])
  have b: "call_total_mem_within_pct parsed [PNone, py_get_default ?ctx ''pct'' (PInt 2)]
      = Inl TypeError"
    by (simp add: call_total_mem_within_pct_def total_mem_within_pct_None)
  have js: "judge_step ext ?ctx (plan ! i) (?raw ! i) =
      (case parse_step ext (plan ! i) (?raw ! i) of Inl e \<Rightarrow> Inl e | Inr pd \<Rightarrow> Inl TypeError)"
    by (rule judge_step_bare_raises [OF assms(2,3,4)])
  then have "\<exists>e. judge_step ext ?ctx (plan ! i) (?raw ! i) = Inl e"
    by (simp split: sum.splits)
  then obtain e where e: "judge_step ext ?ctx (fst (plan ! i, ?raw ! i)) (snd (plan ! i, ?raw ! i)) = Inl e"
    by auto
  from judge_steps_raises [OF zip_plan_raw_mem [OF assms(1)] e]
  obtain e' where e': "judge_steps ext ?ctx (zip plan ?raw) = Inl e'"
    by blast
  then have run: "run_job_thread ext rem dsl plan =
      \<lparr> jr_events = snd ?run, jr_result = None, jr_error = Some e' \<rparr>"
    by (simp add: run_job_thread_def Let_def)
  have nv: "\<not> list_ex is_verdict (snd ?run)"
    unfolding execute_plan_def by (rule execute_plan_from_no_verdict)
  have first: "jr_error (run_job_thread ext rem dsl plan) = Some TypeError"
    if i0: "i = 0" and pd: "\<exists>pd. parse_step ext (plan ! 0) (?raw ! 0) = Inr pd"
  proof -
    from assms(1) i0 obtain s ss where plan: "plan = s # ss"
      by (cases plan) auto
    have len: "length ?raw = length plan"
      by (simp add: execute_plan_def execute_plan_from_length)
    with plan obtain r rs where raw: "?raw = r # rs"
      by (cases ?raw) auto
    from js i0 pd plan raw have "judge_step ext ?ctx s r = Inl TypeError"
      by auto
    with plan raw have "judge_steps ext ?ctx (zip plan ?raw) = Inl TypeError"
      by simp
    then show ?thesis
      by (simp add: run_job_thread_def Let_def)
  qed
  from a b run nv first show ?thesis
    by simp
qed

theorem bare_total_mem_validator_kills_job_witness:
  "validator_args [] ''total_mem_within_pct'' [] = Inr [PNone, PInt 2]
   \<and> jr_error (run_job_thread ex_externals (ex_remote_prints ''MemTotal: 16384000 kB'')
         (ex_meminfo_dsl [] ''total_mem_within_pct'') (ex_meminfo_plan ''total_mem_within_pct''))
       = Some TypeError
   \<and> jr_result (run_job_thread ex_externals (ex_remote_prints ''MemTotal: 16384000 kB'')
         (ex_meminfo_dsl [] ''total_mem_within_pct'') (ex_meminfo_plan ''total_mem_within_pct''))
       = None
   \<and> \<not> list_ex is_verdict
         (jr_events (run_job_thread ex_externals (ex_remote_prints ''MemTotal: 16384000 kB'')
            (ex_meminfo_dsl [] ''total_mem_within_pct'') (ex_meminfo_plan ''total_mem_within_pct'')))"
proof -
  let ?dsl = "ex_meminfo_dsl [] ''total_mem_within_pct''"
  let ?plan = "ex_meminfo_plan ''total_mem_within_pct''"
  let ?rem = "ex_remote_prints ''MemTotal: 16384000 kB''"
  have h1: "(0::nat) < length ?plan"
    by (simp add: ex_meminfo_plan_def)
  have h2: "es_validator (?plan ! 0) = Some ''total_mem_within_pct''"
    by (simp add: ex_meminfo_plan_def)
  have h3: "map_of (dsl_context ?dsl) ''expected_total_gib'' = None"
    by (simp add: ex_meminfo_dsl_def)
  have h4: "map_of (dsl_context ?dsl) ''expected'' = None \<or>
         (\<exists>ed. map_of (dsl_context ?dsl) ''expected'' = Some (PDict ed)
               \<and> map_of ed ''total_gib'' = None)"
    by (simp add: ex_meminfo_dsl_def)
  have pm: "parse_meminfo ''MemTotal: 16384000 kB'' =
      Inr [(''total_gib'', PFloat (Finite (8793278272440893/562949953421312)))]"
    by code_simp
  have h5: "\<exists>pd. parse_step ex_externals (?plan ! 0)
                    (fst (execute_plan ?rem (dsl_target_host ?dsl) ?plan) ! 0) = Inr pd"
    by (simp add: parse_step_def PARSERS_def ex_meminfo_plan_def execute_plan_def Let_def
        run_cmd_def ex_remote_prints_def or_empty_def OUTPUT_CAP_def pm)
  have ctx: "dsl_context ?dsl = []"
    by (simp add: ex_meminfo_dsl_def)
  from bare_total_mem_validator_kills_job [OF h1 h2 h3 h4, of "[]" ex_externals ?rem] h5 ctx
  show ?thesis
    by (simp add: py_get_default_def)
qed






lemma spec_16_2:
  "parse_validator_spec ext ''total_mem_within_pct(16,2)'' =
     Inr (''total_mem_within_pct'', [PInt 16, PInt 2])"
  by (simp add: parse_validator_spec_def cast_arg_def isdigit_def py_int_def py_int_digits_def
      int_of_digits_def is_ascii_digit_def strip_def is_space_def ebind_def)

lemma meminfo_scenario_run:
  assumes "length out \<le> 262144"
    and "parse_meminfo out = Inr parsed"
    and "total_mem_within_pct parsed (PInt 16) (PInt 2) = Inr (ok, nt)"
  shows "run_job_thread ext (ex_remote_prints out)
           (ex_meminfo_dsl ctx ''total_mem_within_pct(16,2)'')
           (ex_meminfo_plan ''total_mem_within_pct(16,2)'') =
         \<lparr> jr_events =
             [StepStart ''s1'' ''cat /proc/meminfo'', StepResult ''s1'' 0 3,
              Verdict (if ok then ''SUCCESS'' else ''FAILED'')
                (if ok then ''All criteria passed.'' else ''One or more criteria failed.'')],
           jr_result =
             Some \<lparr> vr_status = (if ok then ''SUCCESS'' else ''FAILED''),
                    vr_summary = (if ok then ''All criteria passed.''
                                  else ''One or more criteria failed.''),
                    vr_per_step = [\<lparr> ps_id = ''s1'', ps_ok = ok, ps_notes = nt \<rparr>],
                    vr_evidence = [] \<rparr>,
           jr_error = None \<rparr>"
proof -
  let ?plan = "ex_meminfo_plan ''total_mem_within_pct(16,2)''"
  let ?rr = "\<lparr> rr_step_id = ''s1'', rr_exit_code = 0, rr_stdout = out, rr_stderr = [],
              rr_duration_ms = 3, rr_truncated = False \<rparr>"
  have ex: "execute_plan (ex_remote_prints out) ''h'' ?plan =
      ([?rr], [StepStart ''s1'' ''cat /proc/meminfo'', StepResult ''s1'' 0 3])"
    using assms(1)
    by (simp add: execute_plan_def ex_meminfo_plan_def Let_def run_cmd_def ex_remote_prints_def
        or_empty_def OUTPUT_CAP_def ERR_CAP_def)
  have ps: "parse_step ext (hd ?plan) ?rr = Inr parsed"
    by (simp add: parse_step_def PARSERS_def ex_meminfo_plan_def assms(2))
  have js: "judge_step ext ctx (hd ?plan) ?rr = Inr \<lparr> ps_id = ''s1'', ps_ok = ok, ps_notes = nt \<rparr>"
    using ps
    by (simp add: judge_step_def ebind_def spec_16_2 VALIDATORS_def validator_args_def
        call_total_mem_within_pct_def assms(3) ex_meminfo_plan_def)
  have z: "zip ?plan [?rr] = [(hd ?plan, ?rr)]"
    by (simp add: ex_meminfo_plan_def)
  show ?thesis
  proof -
    have h: "dsl_target_host (ex_meminfo_dsl ctx ''total_mem_within_pct(16,2)'') = ''h''"
      "dsl_context (ex_meminfo_dsl ctx ''total_mem_within_pct(16,2)'') = ctx"
      by (simp_all add: ex_meminfo_dsl_def)
    show ?thesis
      unfolding run_job_thread_def h ex
      by (simp add: Let_def z js)
  qed
qed

lemma meminfo_16384000:
  "parse_meminfo ''MemTotal: 16384000 kB'' =
     Inr [(''total_gib'', PFloat (Finite (8793278272440893 / 562949953421312)))]"
  by code_simp

lemma within_pct_16384000:
  "total_mem_within_pct [(''total_gib'', PFloat (Finite (8793278272440893 / 562949953421312)))]
     (PInt 16) (PInt 2) =
   Inr (False, NoteMem (PFloat (Finite (8793278272440893 / 562949953421312))) (PInt 16) (PInt 2))"
  by code_simp

lemma meminfo_16777216:
  "parse_meminfo ''MemTotal: 16777216 kB'' = Inr [(''total_gib'', PFloat (Finite 16))]"
  by code_simp

lemma within_pct_16777216:
  "total_mem_within_pct [(''total_gib'', PFloat (Finite 16))] (PInt 16) (PInt 2) =
   Inr (True, NoteMem (PFloat (Finite 16)) (PInt 16) (PInt 2))"
  by code_simp



text \<open>
  C3, as stated, fails. 16384000 kB are 15.625 GiB, which \<open>parse_meminfo\<close> rounds to
  15.62; that is 0.38 away from 16, more than the 0.32 that 2 percent of 16 allow. The
  step is judged not ok and the job's status is \<open>FAILED\<close>.
\<close>

theorem meminfo_16384000_scenario_fails:
  "jr_result (run_job_thread ex_externals (ex_remote_prints ''MemTotal: 16384000 kB'')
       (ex_meminfo_dsl [] ''total_mem_within_pct(16,2)'')
       (ex_meminfo_plan ''total_mem_within_pct(16,2)'')) =
     Some \<lparr> vr_status = ''FAILED'', vr_summary = ''One or more criteria failed.'',
            vr_per_step =
              [\<lparr> ps_id = ''s1'', ps_ok = False,
                 ps_notes = NoteMem (PFloat (Finite (8793278272440893 / 562949953421312)))
                              (PInt 16) (PInt 2) \<rparr>],
            vr_evidence = [] \<rparr>"
proof -
  have len: "length ''MemTotal: 16384000 kB'' \<le> 262144"
    by simp
  show ?thesis
    by (simp add: meminfo_scenario_run [OF len meminfo_16384000 within_pct_16384000])
qed

text \<open>
  C3, amended. For the single-step job with step \<open>s1\<close>, parser \<open>parse_meminfo\<close> and
  validator \<open>total_mem_within_pct(16,2)\<close>, when the remote command's output is exactly
  \<open>MemTotal: 16384000 kB\<close> the judging phase produces
  \<open>per_step = [{id: "s1", ok: false}]\<close> and the overall status \<open>FAILED\<close>, the parsed
  total being the double 15.62; it emits the step's two events and then the verdict. The
  outcome the claim describes, \<open>ok: true\<close> and \<open>SUCCESS\<close>, is that of the output
  \<open>MemTotal: 16777216 kB\<close>, which is 16 GiB. Both hold whatever the functions not
  modelled do.
\<close>

theorem meminfo_scenario_verdicts:
  "run_job_thread ext (ex_remote_prints ''MemTotal: 16384000 kB'')
       (ex_meminfo_dsl [] ''total_mem_within_pct(16,2)'')
       (ex_meminfo_plan ''total_mem_within_pct(16,2)'') =
     \<lparr> jr_events =
         [StepStart ''s1'' ''cat /proc/meminfo'', StepResult ''s1'' 0 3,
          Verdict ''FAILED'' ''One or more criteria failed.''],
       jr_result =
         Some \<lparr> vr_status = ''FAILED'', vr_summary = ''One or more criteria failed.'',
                vr_per_step =
                  [\<lparr> ps_id = ''s1'', ps_ok = False,
                     ps_notes = NoteMem (PFloat (Finite (8793278272440893 / 562949953421312)))
                                  (PInt 16) (PInt 2) \<rparr>],
                vr_evidence = [] \<rparr>,
       jr_error = None \<rparr>
   \<and> 8793278272440893 / 562949953421312 = fl (1562 / 100)
   \<and> run_job_thread ext (ex_remote_prints ''MemTotal: 16777216 kB'')
       (ex_meminfo_dsl [] ''total_mem_within_pct(16,2)'')
       (ex_meminfo_plan ''total_mem_within_pct(16,2)'') =
     \<lparr> jr_events =
         [StepStart ''s1'' ''cat /proc/meminfo'', StepResult ''s1'' 0 3,
          Verdict ''SUCCESS'' ''All criteria passed.''],
       jr_result =
         Some \<lparr> vr_status = ''SUCCESS'', vr_summary = ''All criteria passed.'',
                vr_per_step =
                  [\<lparr> ps_id = ''s1'', ps_ok = True,
                     ps_notes = NoteMem (PFloat (Finite 16)) (PInt 16) (PInt 2) \<rparr>],
                vr_evidence = [] \<rparr>,
       jr_error = None \<rparr>"
proof -
  have len: "length ''MemTotal: 16384000 kB'' \<le> 262144" "length ''MemTotal: 16777216 kB'' \<le> 262144"
    by simp_all
  have d: "(8793278272440893 / 562949953421312 :: rat) = fl (1562 / 100)"
    by code_simp
  from meminfo_scenario_run [OF len(1) meminfo_16384000 within_pct_16384000, of ext "[]"]
    meminfo_scenario_run [OF len(2) meminfo_16777216 within_pct_16777216, of ext "[]"] d
  show ?thesis
    by simp
qed

section \<open>Properties of all\_expected\_dimms\<close>








end
